theory Spec2Isabelle
  imports Complex_Main "HOL-Library.Char_ord" "HOL-Library.List_Lexorder"
    "HOL-Library.Product_Lexorder"
begin

section \<open>Tables\<close>

text \<open>
  The program of \<^verbatim>\<open>eda-analysis.py\<close> works on three tables (data frames) through a
  data-frame library. A table is an ordered list of labelled columns; a column is a
  series of cells of one kind, and a missing cell (NaN, NaT, None) is \<open>None\<close>.
\<close>

type_synonym 'a series = "'a option list"

text \<open>A timestamp, kept to its calendar part: year, month, day.\<close>

type_synonym datetime = "int \<times> nat \<times> nat"

text \<open>A monthly period: year and month.\<close>

type_synonym period = "int \<times> nat"

text \<open>
  The kinds of columns: identifiers of a type \<open>'k\<close> (customer, product and transaction
  identifiers, kept as objects), 64-bit integers (a column of them has no null), 64-bit
  floats, text, timestamps and monthly periods. A float is carried as the real number it
  stands for; infinities are not part of the model.
\<close>

datatype 'k column =
    Ids "'k series"
  | Int64s "int list"
  | Nums "real series"
  | Strs "string series"
  | Dates "datetime series"
  | Periods "period series"

type_synonym 'k frame = "(string \<times> 'k column) list"

datatype error =
    KeyError "string list"
  | TypeError
  | ValueError
  | AttributeError

text \<open>A raised exception ends the computation: \<open>andthen r f\<close> runs \<open>f\<close> on the value of
  \<open>r\<close>, or passes the error of \<open>r\<close> on.\<close>

definition andthen :: "error + 'a \<Rightarrow> ('a \<Rightarrow> error + 'b) \<Rightarrow> error + 'b" where
  "andthen r f = (case r of Inl e \<Rightarrow> Inl e | Inr v \<Rightarrow> f v)"

subsection \<open>Machine numbers\<close>

text \<open>An integer sum is taken in 64 bits, two's complement: it wraps around.\<close>

definition wrap64 :: "int \<Rightarrow> int" where
  "wrap64 x = (x + 2 ^ 63) mod 2 ^ 64 - 2 ^ 63"

text \<open>
  The float arithmetic of the platform is a parameter of the model: \<open>fsum fl xs\<close> is the
  sum of the floats \<open>xs\<close> as the library accumulates it, in the order of the list, and
  \<open>nearest fl x\<close> is the float that the real number \<open>x\<close> is rounded to.
\<close>

record float64 =
  fsum :: "real list \<Rightarrow> real"
  nearest :: "real \<Rightarrow> real"

fun dropna :: "'a series \<Rightarrow> 'a list" where
  "dropna [] = []"
| "dropna (None # xs) = dropna xs"
| "dropna (Some x # xs) = x # dropna xs"

fun notna :: "'k column \<Rightarrow> bool list" where
  "notna (Ids xs) = map (\<lambda>x. x \<noteq> None) xs"
| "notna (Int64s xs) = map (\<lambda>x. True) xs"
| "notna (Nums xs) = map (\<lambda>x. x \<noteq> None) xs"
| "notna (Strs xs) = map (\<lambda>x. x \<noteq> None) xs"
| "notna (Dates xs) = map (\<lambda>x. x \<noteq> None) xs"
| "notna (Periods xs) = map (\<lambda>x. x \<noteq> None) xs"

text \<open>\<^verbatim>\<open>len(df)\<close>: the number of rows, read off the first column.\<close>

definition nrows :: "'k frame \<Rightarrow> nat" where
  "nrows df = (case df of [] \<Rightarrow> 0 | (l, c) # _ \<Rightarrow> length (notna c))"

definition labels :: "'k frame \<Rightarrow> string list" where
  "labels df = map fst df"

text \<open>\<^verbatim>\<open>df[c]\<close> raises KeyError for a label the table does not have.\<close>

definition getitem :: "'k frame \<Rightarrow> string \<Rightarrow> error + 'k column" where
  "getitem df c = (case map_of df c of None \<Rightarrow> Inl (KeyError [c]) | Some s \<Rightarrow> Inr s)"

text \<open>\<^verbatim>\<open>df[[c1, c2, ...]]\<close>: the listed columns in the listed order, KeyError naming
  the labels that are missing.\<close>

definition getitems :: "'k frame \<Rightarrow> string list \<Rightarrow> error + 'k frame" where
  "getitems df cs =
     (let missing = filter (\<lambda>c. map_of df c = None) cs
      in if missing \<noteq> [] then Inl (KeyError missing)
         else Inr (map (\<lambda>c. (c, the (map_of df c))) cs))"

text \<open>\<^verbatim>\<open>df[c] = s\<close> replaces the column labelled \<open>c\<close> where it stands, or appends a new
  column at the end.\<close>

fun setitem :: "'k frame \<Rightarrow> string \<Rightarrow> 'k column \<Rightarrow> 'k frame" where
  "setitem [] c s = [(c, s)]"
| "setitem ((l, old) # df) c s = (if l = c then (l, s) # df else (l, old) # setitem df c s)"

section \<open>Joining\<close>

text \<open>What the join compares of two key columns: integers and floats are both numbers.\<close>

datatype dtype = Object | Number | Datetime64 | PeriodM

fun dtype_of :: "'k column \<Rightarrow> dtype" where
  "dtype_of (Ids xs) = Object"
| "dtype_of (Int64s xs) = Number"
| "dtype_of (Nums xs) = Number"
| "dtype_of (Strs xs) = Object"
| "dtype_of (Dates xs) = Datetime64"
| "dtype_of (Periods xs) = PeriodM"

text \<open>The cells of a column. An integer and a float of the same value are the same
  cell.\<close>

datatype 'k cell = Id "'k option" | Num "real option" | Str "string option"
  | Date "datetime option" | Period "period option"

fun cells :: "'k column \<Rightarrow> 'k cell list" where
  "cells (Ids xs) = map Id xs"
| "cells (Int64s xs) = map (\<lambda>x. Num (Some (real_of_int x))) xs"
| "cells (Nums xs) = map Num xs"
| "cells (Strs xs) = map Str xs"
| "cells (Dates xs) = map Date xs"
| "cells (Periods xs) = map Period xs"

fun isna :: "'k cell \<Rightarrow> bool" where
  "isna (Id x) = (x = None)"
| "isna (Num x) = (x = None)"
| "isna (Str x) = (x = None)"
| "isna (Date x) = (x = None)"
| "isna (Period x) = (x = None)"

text \<open>Row \<open>i\<close> of the left key pairs with every row \<open>j\<close> of the right key that holds the
  same value, in the order of the left rows.\<close>

definition join_pairs :: "'k column \<Rightarrow> 'k column \<Rightarrow> (nat \<times> nat) list" where
  "join_pairs lk rk =
     concat (map (\<lambda>(i, a). map (\<lambda>(j, b). (i, j)) (filter (\<lambda>(j, b). a = b) (enumerate 0 (cells rk))))
                 (enumerate 0 (cells lk)))"

fun take_rows :: "nat list \<Rightarrow> 'k column \<Rightarrow> 'k column" where
  "take_rows is (Ids xs) = Ids (map (\<lambda>i. xs ! i) is)"
| "take_rows is (Int64s xs) = Int64s (map (\<lambda>i. xs ! i) is)"
| "take_rows is (Nums xs) = Nums (map (\<lambda>i. xs ! i) is)"
| "take_rows is (Strs xs) = Strs (map (\<lambda>i. xs ! i) is)"
| "take_rows is (Dates xs) = Dates (map (\<lambda>i. xs ! i) is)"
| "take_rows is (Periods xs) = Periods (map (\<lambda>i. xs ! i) is)"

text \<open>
  Two key columns of different dtypes cannot be joined. The join does not look at the
  dtypes when exactly one of the two columns has no row. For an object column against a
  numeric one the library looks at the values as well and lets some pairs pass (objects
  that are all integers, against integers); the model answers ValueError for every pair
  of different dtypes, so that a join that the model performs is one that the library
  performs.
\<close>

definition incompatible_keys :: "'k column \<Rightarrow> 'k column \<Rightarrow> bool" where
  "incompatible_keys lk rk \<longleftrightarrow>
     dtype_of lk \<noteq> dtype_of rk \<and> ((cells lk = []) = (cells rk = []))"

text \<open>
  \<^verbatim>\<open>pd.merge(left, right, on=key)\<close>, the inner join: KeyError when either table lacks
  the key, ValueError when the two key columns cannot be joined. The result has the left
  columns, then the right columns other than the key; a label on both sides gets the
  suffixes \<^verbatim>\<open>_x\<close> and \<^verbatim>\<open>_y\<close>.
\<close>

definition merge :: "'k frame \<Rightarrow> 'k frame \<Rightarrow> string \<Rightarrow> error + 'k frame" where
  "merge left right on =
     andthen (getitem left on) (\<lambda>lk.
     andthen (getitem right on) (\<lambda>rk.
        if incompatible_keys lk rk then Inl ValueError
        else
          let ps = join_pairs lk rk;
              both = filter (\<lambda>l. l \<noteq> on \<and> l \<in> set (labels right)) (labels left)
          in Inr (map (\<lambda>(l, c). (if l \<in> set both then l @ ''_x'' else l, take_rows (map fst ps) c)) left
                @ map (\<lambda>(l, c). (if l \<in> set both then l @ ''_y'' else l, take_rows (map snd ps) c))
                    (filter (\<lambda>(l, c). l \<noteq> on) right))))"

section \<open>Grouping and aggregation\<close>

text \<open>The group keys of \<^verbatim>\<open>groupby\<close>: the distinct non-null values of the key column, in
  ascending order (\<^verbatim>\<open>sort=True\<close>, \<^verbatim>\<open>dropna=True\<close> are the defaults).\<close>

definition uniq :: "'a::linorder series \<Rightarrow> 'a list" where
  "uniq xs = sort (remdups (dropna xs))"

text \<open>One row mask per group: the rows whose key is that group's key.\<close>

definition masks_of :: "'a::linorder series \<Rightarrow> bool list list" where
  "masks_of xs = map (\<lambda>k. map (\<lambda>x. x = Some k) xs) (uniq xs)"

fun group_keys :: "('k::linorder) column \<Rightarrow> 'k column" where
  "group_keys (Ids xs) = Ids (map Some (uniq xs))"
| "group_keys (Int64s xs) = Int64s (uniq (map Some xs))"
| "group_keys (Nums xs) = Nums (map Some (uniq xs))"
| "group_keys (Strs xs) = Strs (map Some (uniq xs))"
| "group_keys (Dates xs) = Dates (map Some (uniq xs))"
| "group_keys (Periods xs) = Periods (map Some (uniq xs))"

fun group_masks :: "('k::linorder) column \<Rightarrow> bool list list" where
  "group_masks (Ids xs) = masks_of xs"
| "group_masks (Int64s xs) = masks_of (map Some xs)"
| "group_masks (Nums xs) = masks_of xs"
| "group_masks (Strs xs) = masks_of xs"
| "group_masks (Dates xs) = masks_of xs"
| "group_masks (Periods xs) = masks_of xs"

record 'k grouped =
  obj :: "'k frame"
  by_label :: string
  by_column :: "'k column"

definition groupby :: "('k::linorder) frame \<Rightarrow> string \<Rightarrow> error + 'k grouped" where
  "groupby df key =
     andthen (getitem df key) (\<lambda>c. Inr \<lparr>obj = df, by_label = key, by_column = c\<rparr>)"

text \<open>The rows of a series that a mask keeps.\<close>

definition select :: "bool list \<Rightarrow> 'a list \<Rightarrow> 'a list" where
  "select m xs = map snd (filter fst (zip m xs))"

datatype aggfunc = Count | Sum | Mean

fun aggfunc_name :: "aggfunc \<Rightarrow> string" where
  "aggfunc_name Count = ''count''"
| "aggfunc_name Sum = ''sum''"
| "aggfunc_name Mean = ''mean''"

text \<open>\<^verbatim>\<open>count\<close> counts the non-null cells, as an integer. \<^verbatim>\<open>sum\<close> of floats adds the
  non-null cells (0 when there is none). \<^verbatim>\<open>mean\<close> is that sum divided by the number of
  non-null cells, rounded; NaN when there is none.\<close>

definition count :: "bool list \<Rightarrow> int" where
  "count present = int (length (filter id present))"

definition nansum :: "float64 \<Rightarrow> real series \<Rightarrow> real option" where
  "nansum fl vs = Some (if dropna vs = [] then 0 else fsum fl (dropna vs))"

definition nanmean :: "float64 \<Rightarrow> real series \<Rightarrow> real option" where
  "nanmean fl vs =
     (if dropna vs = [] then None
      else Some (nearest fl (fsum fl (dropna vs) / real (length (dropna vs)))))"

text \<open>
  One aggregation of one column, group by group. An integer column is summed in 64 bits
  and averaged as floats. Identifier and text columns give an empty result when there is
  no group. Where there is a group, the library raises TypeError for the mean of text and
  concatenates text under \<^verbatim>\<open>sum\<close>; the model does not follow the concatenation and
  answers TypeError for both, as it does for timestamps and periods.
\<close>

fun agg_column :: "float64 \<Rightarrow> bool list list \<Rightarrow> 'k column \<Rightarrow> aggfunc \<Rightarrow> error + 'k column" where
  "agg_column fl ms c Count = Inr (Int64s (map (\<lambda>m. count (select m (notna c))) ms))"
| "agg_column fl ms (Int64s xs) Sum = Inr (Int64s (map (\<lambda>m. wrap64 (sum_list (select m xs))) ms))"
| "agg_column fl ms (Int64s xs) Mean =
     Inr (Nums (map (\<lambda>m. nanmean fl (map (\<lambda>x. Some (nearest fl (real_of_int x))) (select m xs))) ms))"
| "agg_column fl ms (Nums vs) Sum = Inr (Nums (map (\<lambda>m. nansum fl (select m vs)) ms))"
| "agg_column fl ms (Nums vs) Mean = Inr (Nums (map (\<lambda>m. nanmean fl (select m vs)) ms))"
| "agg_column fl ms (Ids xs) f = (if ms = [] then Inr (Ids []) else Inl TypeError)"
| "agg_column fl ms (Strs xs) f = (if ms = [] then Inr (Strs []) else Inl TypeError)"
| "agg_column fl ms c f = Inl TypeError"

fun agg_funcs ::
  "float64 \<Rightarrow> bool list list \<Rightarrow> string \<Rightarrow> 'k column \<Rightarrow> aggfunc list
     \<Rightarrow> error + ((string \<times> string) \<times> 'k column) list"
where
  "agg_funcs fl ms l c [] = Inr []"
| "agg_funcs fl ms l c (f # fs) =
     andthen (agg_column fl ms c f) (\<lambda>r.
     andthen (agg_funcs fl ms l c fs) (\<lambda>rs. Inr (((l, aggfunc_name f), r) # rs)))"

fun agg_each ::
  "float64 \<Rightarrow> 'k frame \<Rightarrow> bool list list \<Rightarrow> (string \<times> aggfunc list) list
     \<Rightarrow> error + ((string \<times> string) \<times> 'k column) list"
where
  "agg_each fl df ms [] = Inr []"
| "agg_each fl df ms ((l, fs) # spec) =
     andthen (getitem df l) (\<lambda>c.
     andthen (agg_funcs fl ms l c fs) (\<lambda>rs.
     andthen (agg_each fl df ms spec) (\<lambda>rest. Inr (rs @ rest))))"

text \<open>The result of \<^verbatim>\<open>.agg\<close>: the group keys as the index, and one column per
  (label, function) pair of the dictionary, in the dictionary's order.\<close>

record 'k aggregated =
  index_name :: string
  index :: "'k column"
  data :: "((string \<times> string) \<times> 'k column) list"

text \<open>\<^verbatim>\<open>.agg(dict)\<close> first checks that every label of the dictionary is a column
  (KeyError naming, in sorted order, all that are not), then aggregates.\<close>

definition agg ::
  "float64 \<Rightarrow> ('k::linorder) grouped \<Rightarrow> (string \<times> aggfunc list) list \<Rightarrow> error + 'k aggregated" where
  "agg fl g spec =
     (let missing = filter (\<lambda>l. map_of (obj g) l = None) (map fst spec)
      in if missing \<noteq> [] then Inl (KeyError (sort missing))
         else andthen (agg_each fl (obj g) (group_masks (by_column g)) spec) (\<lambda>cs.
                Inr \<lparr>index_name = by_label g, index = group_keys (by_column g), data = cs\<rparr>))"

text \<open>\<^verbatim>\<open>.reset_index()\<close> makes the index the first column.\<close>

definition reset_index :: "'k aggregated \<Rightarrow> ((string \<times> string) \<times> 'k column) list" where
  "reset_index a = ((index_name a, ''''), index a) # data a"

text \<open>\<^verbatim>\<open>df.columns = names\<close> relabels the columns; ValueError when the number of names is
  not the number of columns.\<close>

definition set_columns :: "('l \<times> 'k column) list \<Rightarrow> string list \<Rightarrow> error + 'k frame" where
  "set_columns df names =
     (if length names \<noteq> length df then Inl ValueError else Inr (zip names (map snd df)))"

section \<open>Objects and references\<close>

text \<open>
  A table is a mutable object. The store holds the objects made so far, and a reference
  is the position of an object in it; a new object goes to the end of the store. Besides
  tables the store holds the table that \<^verbatim>\<open>reset_index\<close> makes of an aggregation, whose
  labels are pairs until \<^verbatim>\<open>df.columns = names\<close> relabels it in place. A reference that
  the program holds points to an object of the store.
\<close>

datatype 'k object =
    Table "'k frame"
  | Wide "((string \<times> string) \<times> 'k column) list"

type_synonym 'k store = "'k object list"

type_synonym ref = nat

definition alloc :: "'k store \<Rightarrow> 'k object \<Rightarrow> ref \<times> 'k store" where
  "alloc s ob = (length s, s @ [ob])"

definition table_at :: "'k store \<Rightarrow> ref \<Rightarrow> 'k frame" where
  "table_at s r =
     (if r < length s then (case s ! r of Table df \<Rightarrow> df | Wide w \<Rightarrow> []) else [])"

text \<open>\<^verbatim>\<open>df.columns = names\<close> on the object that \<open>r\<close> points to.\<close>

definition set_columns_at :: "'k store \<Rightarrow> ref \<Rightarrow> string list \<Rightarrow> error + 'k store" where
  "set_columns_at s r names =
     (if r < length s then
        (case s ! r of
           Table df \<Rightarrow> andthen (set_columns df names) (\<lambda>df'. Inr (s[r := Table df']))
         | Wide w \<Rightarrow> andthen (set_columns w names) (\<lambda>df'. Inr (s[r := Table df'])))
      else Inr s)"

section \<open>The behaviour aggregator\<close>

text \<open>
  \<^verbatim>\<open>analyze_customer_behavior(customers_df, transactions_df)\<close>, statement by statement
  on the store: the two arguments are references. The column selection, the join and
  the aggregation each make a new object; the join is bound to a local that is not read
  again; the last assignment relabels the new table in place. The function returns the
  reference of the new table, and the model the store with it.
\<close>

definition analyze_customer_behavior_on ::
  "float64 \<Rightarrow> ('k::linorder) store \<Rightarrow> ref \<Rightarrow> ref \<Rightarrow> error + (ref \<times> 'k store)" where
  "analyze_customer_behavior_on fl s customers_df transactions_df =
     andthen (getitems (table_at s customers_df) [''CustomerID'', ''Region'']) (\<lambda>sub.
     let (sub_ref, s) = alloc s (Table sub) in
     andthen (merge (table_at s transactions_df) (table_at s sub_ref) ''CustomerID'') (\<lambda>joined.
     let (customer_transactions, s) = alloc s (Table joined) in
     andthen (groupby (table_at s transactions_df) ''CustomerID'') (\<lambda>g.
     andthen (agg fl g [(''TransactionID'', [Count]), (''TotalValue'', [Sum, Mean]),
                        (''Quantity'', [Sum])]) (\<lambda>a.
     let (customer_metrics, s) = alloc s (Wide (reset_index a)) in
     andthen (set_columns_at s customer_metrics
                [''CustomerID'', ''total_transactions'', ''total_spend'',
                 ''avg_transaction_value'', ''total_items'']) (\<lambda>s.
       Inr (customer_metrics, s))))))"

text \<open>
  The call on two tables that are the only objects of the store. With the table that the
  call returns, the model gives the two argument tables as the store holds them after
  the call.
\<close>

definition analyze_customer_behavior ::
  "float64 \<Rightarrow> ('k::linorder) frame \<Rightarrow> 'k frame \<Rightarrow> error + ('k frame \<times> 'k frame \<times> 'k frame)" where
  "analyze_customer_behavior fl customers_df transactions_df =
     andthen (analyze_customer_behavior_on fl [Table customers_df, Table transactions_df] 0 1)
       (\<lambda>(customer_metrics, s). Inr (table_at s customer_metrics, table_at s 0, table_at s 1))"

section \<open>The descriptive summary and the charts\<close>

text \<open>The \<^verbatim>\<open>.dt\<close> accessors exist on datetime columns only; on another kind the attribute
  lookup raises AttributeError.\<close>

fun dt_year :: "'k column \<Rightarrow> error + 'k column" where
  "dt_year (Dates ds) = Inr (Nums (map (map_option (\<lambda>(y, m, d). real_of_int y)) ds))"
| "dt_year c = Inl AttributeError"

fun dt_month :: "'k column \<Rightarrow> error + 'k column" where
  "dt_month (Dates ds) = Inr (Nums (map (map_option (\<lambda>(y, m, d). real m)) ds))"
| "dt_month c = Inl AttributeError"

fun dt_to_period_M :: "'k column \<Rightarrow> error + 'k column" where
  "dt_to_period_M (Dates ds) = Inr (Periods (map (map_option (\<lambda>(y, m, d). (y, m))) ds))"
| "dt_to_period_M c = Inl AttributeError"

text \<open>\<^verbatim>\<open>Series.sum()\<close> and \<^verbatim>\<open>Series.mean()\<close> of a whole column. Of an identifier or text
  column without a non-null cell the sum is 0 and the mean is NaN; with one, the model
  answers TypeError (the library raises it for the mean, which the program takes right
  after the sum).\<close>

fun series_sum :: "float64 \<Rightarrow> 'k column \<Rightarrow> error + real option" where
  "series_sum fl (Int64s xs) = Inr (Some (real_of_int (wrap64 (sum_list xs))))"
| "series_sum fl (Nums vs) = Inr (nansum fl vs)"
| "series_sum fl (Ids xs) = (if dropna xs = [] then Inr (Some 0) else Inl TypeError)"
| "series_sum fl (Strs xs) = (if dropna xs = [] then Inr (Some 0) else Inl TypeError)"
| "series_sum fl c = Inl TypeError"

fun series_mean :: "float64 \<Rightarrow> 'k column \<Rightarrow> error + real option" where
  "series_mean fl (Int64s xs) = Inr (nanmean fl (map (\<lambda>x. Some (nearest fl (real_of_int x))) xs))"
| "series_mean fl (Nums vs) = Inr (nanmean fl vs)"
| "series_mean fl (Ids xs) = (if dropna xs = [] then Inr None else Inl TypeError)"
| "series_mean fl (Strs xs) = (if dropna xs = [] then Inr None else Inl TypeError)"
| "series_mean fl c = Inl TypeError"

text \<open>\<^verbatim>\<open>Series.value_counts()\<close>: how often each non-null value occurs. The order of the
  entries is not kept.\<close>

definition value_counts :: "'k column \<Rightarrow> 'k cell \<Rightarrow> nat" where
  "value_counts c v = (if isna v then 0 else count_list (cells c) v)"

text \<open>The three dictionaries of summaries that \<^verbatim>\<open>perform_eda\<close> returns.\<close>

record 'k customer_summary =
  total_customers :: nat
  customers_by_region :: "'k cell \<Rightarrow> nat"
  signup_trends :: "'k cell \<Rightarrow> nat"

record 'k product_summary =
  total_products :: nat
  products_by_category :: "'k cell \<Rightarrow> nat"

record 'k transaction_summary =
  total_transactions :: nat
  total_revenue :: "real option"
  avg_transaction_value :: "real option"
  revenue_by_year :: "'k aggregated"

text \<open>
  \<^verbatim>\<open>perform_eda(customers_df, products_df, transactions_df)\<close>. The printed summaries
  read the tables only and are left out. Of \<^verbatim>\<open>price_statistics\<close>, the \<^verbatim>\<open>describe()\<close> of
  the prices, the model keeps the column lookup and not the statistics. The function
  writes two columns, \<^verbatim>\<open>Year\<close> and \<^verbatim>\<open>Month\<close>, into the transactions table it was
  given; the model returns, with the three dictionaries, the three tables as the call
  leaves them.
\<close>

definition perform_eda ::
  "float64 \<Rightarrow> ('k::linorder) frame \<Rightarrow> 'k frame \<Rightarrow> 'k frame \<Rightarrow>
     error + (('k customer_summary \<times> 'k product_summary \<times> 'k transaction_summary)
              \<times> 'k frame \<times> 'k frame \<times> 'k frame)" where
  "perform_eda fl customers_df products_df transactions_df =
     andthen (getitem customers_df ''Region'') (\<lambda>region.
     andthen (getitem customers_df ''SignupDate'') (\<lambda>signup.
     andthen (dt_year signup) (\<lambda>signup_year.
     andthen (getitem products_df ''Category'') (\<lambda>category.
     andthen (getitem products_df ''Price'') (\<lambda>price.
     andthen (getitem transactions_df ''TransactionDate'') (\<lambda>d1.
     andthen (dt_year d1) (\<lambda>year.
     let transactions_df = setitem transactions_df ''Year'' year in
     andthen (getitem transactions_df ''TransactionDate'') (\<lambda>d2.
     andthen (dt_month d2) (\<lambda>month.
     let transactions_df = setitem transactions_df ''Month'' month in
     andthen (getitem transactions_df ''TotalValue'') (\<lambda>total_value.
     andthen (series_sum fl total_value) (\<lambda>revenue.
     andthen (series_mean fl total_value) (\<lambda>avg.
     andthen (groupby transactions_df ''Year'') (\<lambda>g.
     andthen (agg fl g [(''TotalValue'', [Sum])]) (\<lambda>by_year.
        Inr ((\<lparr>total_customers = nrows customers_df,
               customers_by_region = value_counts region,
               signup_trends = value_counts signup_year\<rparr>,
              \<lparr>total_products = nrows products_df,
               products_by_category = value_counts category\<rparr>,
              \<lparr>total_transactions = nrows transactions_df,
               total_revenue = revenue,
               avg_transaction_value = avg,
               revenue_by_year = by_year\<rparr>),
             customers_df, products_df, transactions_df)))))))))))))))"

text \<open>A chart drawn from a column of a table: ValueError when the table has no such
  column.\<close>

definition plot_column :: "'k frame \<Rightarrow> string \<Rightarrow> error + 'k column" where
  "plot_column df c = (case map_of df c of None \<Rightarrow> Inl ValueError | Some s \<Rightarrow> Inr s)"

text \<open>
  \<^verbatim>\<open>generate_visualizations(customers_df, products_df, transactions_df)\<close>. The image
  files are not part of the model. The function writes one column, \<^verbatim>\<open>YearMonth\<close>, into
  the transactions table it was given.
\<close>

definition generate_visualizations ::
  "float64 \<Rightarrow> ('k::linorder) frame \<Rightarrow> 'k frame \<Rightarrow> 'k frame \<Rightarrow> error + ('k frame \<times> 'k frame \<times> 'k frame)" where
  "generate_visualizations fl customers_df products_df transactions_df =
     andthen (plot_column customers_df ''Region'') (\<lambda>region.
     andthen (plot_column products_df ''Price'') (\<lambda>price.
     andthen (getitem transactions_df ''TransactionDate'') (\<lambda>d.
     andthen (dt_to_period_M d) (\<lambda>year_month.
     let transactions_df = setitem transactions_df ''YearMonth'' year_month in
     andthen (groupby transactions_df ''YearMonth'') (\<lambda>g.
     andthen (agg fl g [(''TotalValue'', [Sum])]) (\<lambda>monthly_revenue.
        Inr (customers_df, products_df, transactions_df)))))))"

section \<open>The run\<close>

text \<open>The dictionary that \<^verbatim>\<open>main\<close> returns.\<close>

record 'k results =
  customer_metrics :: "'k customer_summary"
  product_metrics :: "'k product_summary"
  transaction_metrics :: "'k transaction_summary"
  customer_behavior :: "'k frame"

text \<open>
  \<^verbatim>\<open>main()\<close>, from the three tables that \<^verbatim>\<open>load_data()\<close> returned, three objects of
  their own. An error of any
  step ends the run with that error. The result is returned with the three tables as
  the run leaves them; the table written to \<^verbatim>\<open>customer_behavior_analysis.csv\<close> is
  \<open>customer_behavior\<close>.
\<close>

definition main ::
  "float64 \<Rightarrow> ('k::linorder) frame \<Rightarrow> 'k frame \<Rightarrow> 'k frame \<Rightarrow>
     error + ('k results \<times> 'k frame \<times> 'k frame \<times> 'k frame)" where
  "main fl customers_df products_df transactions_df =
     andthen (perform_eda fl customers_df products_df transactions_df)
       (\<lambda>((customer_metrics, product_metrics, transaction_metrics), c1, p1, t1).
     andthen (generate_visualizations fl c1 p1 t1) (\<lambda>(c2, p2, t2).
     andthen (analyze_customer_behavior fl c2 t2) (\<lambda>(customer_behavior, c3, t3).
        Inr (\<lparr>customer_metrics = customer_metrics, product_metrics = product_metrics,
              transaction_metrics = transaction_metrics,
              customer_behavior = customer_behavior\<rparr>, c3, p2, t3))))"

section \<open>Vocabulary of the properties\<close>

text \<open>The table has every one of the listed columns.\<close>

definition has_columns :: "'k frame \<Rightarrow> string list \<Rightarrow> bool" where
  "has_columns df ls = list_all (\<lambda>l. map_of df l \<noteq> None) ls"

text \<open>No two columns of the table have the same label, as in a table read from a
  file. The model reads the first of the columns of a label; the library fails on a
  repeated label of a column that the aggregator groups by, joins on or aggregates.\<close>

definition distinct_labels :: "'k frame \<Rightarrow> bool" where
  "distinct_labels df = distinct (labels df)"

fun is_nums :: "'k column \<Rightarrow> bool" where
  "is_nums (Int64s xs) = True"
| "is_nums (Nums vs) = True"
| "is_nums c = False"

text \<open>The column, where the table has it, is numeric: integers or floats.\<close>

definition numeric :: "'k frame \<Rightarrow> string \<Rightarrow> bool" where
  "numeric df l = (case map_of df l of None \<Rightarrow> True | Some c \<Rightarrow> is_nums c)"

fun is_plain :: "'k column \<Rightarrow> bool" where
  "is_plain (Dates xs) = False"
| "is_plain (Periods xs) = False"
| "is_plain c = True"

text \<open>The column, where the table has it, is of a kind that reading a file gives:
  identifiers, integers, floats or text.\<close>

definition plain :: "'k frame \<Rightarrow> string \<Rightarrow> bool" where
  "plain df l = (case map_of df l of None \<Rightarrow> True | Some c \<Rightarrow> is_plain c)"

text \<open>The customer identifiers of the two tables, where both have them, can be joined.\<close>

definition joinable :: "'k frame \<Rightarrow> 'k frame \<Rightarrow> bool" where
  "joinable transactions_df customers_df =
     (case map_of transactions_df ''CustomerID'' of None \<Rightarrow> True
      | Some lk \<Rightarrow> (case map_of customers_df ''CustomerID'' of None \<Rightarrow> True
                    | Some rk \<Rightarrow> \<not> incompatible_keys lk rk))"

text \<open>The table has no row: every column is empty.\<close>

definition no_rows :: "'k frame \<Rightarrow> bool" where
  "no_rows df = list_all (\<lambda>(l, c). cells c = []) df"

text \<open>Every column of the table has as many cells as the table has rows.\<close>

definition rectangular :: "'k frame \<Rightarrow> bool" where
  "rectangular df = list_all (\<lambda>(l, c). length (cells c) = nrows df) df"

text \<open>The rows of a customer, as a mask: the rows whose identifier cell is \<open>k\<close>.\<close>

definition customer_rows :: "'k column \<Rightarrow> 'k cell \<Rightarrow> bool list" where
  "customer_rows kc k = map (\<lambda>x. x = k) (cells kc)"

text \<open>The rows of a customer, as positions in the table, in the order of the table.\<close>

definition rows_of :: "'k column \<Rightarrow> 'k cell \<Rightarrow> nat list" where
  "rows_of kc k = filter (\<lambda>j. cells kc ! j = k) [0..<length (cells kc)]"

text \<open>
  The sum of a numeric column over the rows at the positions \<open>js\<close>: of integers, their
  sum in 64 bits, two's complement; of floats, the float sum of the cells that are not
  null, in the order of the positions, and 0 when all are null.
\<close>

fun sum_over :: "float64 \<Rightarrow> 'k column \<Rightarrow> nat list \<Rightarrow> 'k cell" where
  "sum_over fl (Int64s xs) js =
     Num (Some (real_of_int (((\<Sum>j\<leftarrow>js. xs ! j) + 2 ^ 63) mod 2 ^ 64 - 2 ^ 63)))"
| "sum_over fl (Nums vs) js =
     (let ys = map (\<lambda>j. the (vs ! j)) (filter (\<lambda>j. vs ! j \<noteq> None) js)
      in Num (Some (if ys = [] then 0 else fsum fl ys)))"
| "sum_over fl c js = Num None"





text \<open>Arithmetic without rounding. On the sample tables below it agrees with 64-bit
  floats: their values, sums and means are floats.\<close>

definition exact :: float64 where
  "exact = \<lparr>fsum = sum_list, nearest = (\<lambda>x. x)\<rparr>"

text \<open>A column without nulls whose values strictly increase from row to row.\<close>

definition increasing :: "'a::linorder series \<Rightarrow> bool" where
  "increasing xs \<longleftrightarrow> None \<notin> set xs \<and> sorted_wrt (<) (dropna xs)"

fun ascending :: "('k::linorder) column \<Rightarrow> bool" where
  "ascending (Ids xs) = increasing xs"
| "ascending (Int64s xs) = sorted_wrt (<) xs"
| "ascending (Nums xs) = increasing xs"
| "ascending (Strs xs) = increasing xs"
| "ascending (Dates xs) = increasing xs"
| "ascending (Periods xs) = increasing xs"

subsection \<open>Sample tables\<close>

text \<open>The three transactions of the scenario of the specification, for the customers 1
  and 2; the customers table knows customer 1 only.\<close>

definition sample_customers :: "nat frame" where
  "sample_customers =
     [(''CustomerID'', Ids [Some 1]),
      (''Region'', Strs [Some ''Asia'']),
      (''SignupDate'', Dates [Some (2022, 3, 7)])]"

definition other_customers :: "nat frame" where
  "other_customers =
     [(''CustomerID'', Ids [Some 7, Some 8]),
      (''Region'', Strs [Some ''Europe'', None]),
      (''SignupDate'', Dates [Some (2021, 11, 30), Some (2023, 1, 2)])]"

definition sample_products :: "nat frame" where
  "sample_products =
     [(''ProductID'', Ids [Some 1]),
      (''Category'', Strs [Some ''Books'']),
      (''Price'', Nums [Some 5])]"

definition sample_transactions :: "nat frame" where
  "sample_transactions =
     [(''TransactionID'', Ids [Some 1, Some 2, Some 3]),
      (''CustomerID'', Ids [Some 1, Some 1, Some 2]),
      (''ProductID'', Ids [Some 1, Some 1, Some 1]),
      (''Quantity'', Int64s [2, 1, 3]),
      (''TotalValue'', Nums [Some 20, Some 5, Some 30]),
      (''TransactionDate'', Dates [Some (2024, 1, 5), Some (2024, 2, 1), Some (2023, 12, 31)])]"

text \<open>The table that the scenario expects for them.\<close>

definition sample_behavior :: "nat frame" where
  "sample_behavior =
     [(''CustomerID'', Ids [Some 1, Some 2]),
      (''total_transactions'', Int64s [2, 1]),
      (''total_spend'', Nums [Some 25, Some 30]),
      (''avg_transaction_value'', Nums [Some (25 / 2), Some 30]),
      (''total_items'', Int64s [3, 3])]"

text \<open>Transactions of the customers 2 and 1 in turn; the transaction identifiers are
  text, and the last transaction of customer 2 has none.\<close>

definition mixed_transactions :: "nat frame" where
  "mixed_transactions =
     [(''TransactionID'', Strs [Some ''T1'', Some ''T2'', None]),
      (''CustomerID'', Ids [Some 2, Some 1, Some 2]),
      (''Quantity'', Int64s [2, 1, 3]),
      (''TotalValue'', Nums [Some 20, Some 5, Some 30])]"

definition mixed_behavior :: "nat frame" where
  "mixed_behavior =
     [(''CustomerID'', Ids [Some 1, Some 2]),
      (''total_transactions'', Int64s [1, 1]),
      (''total_spend'', Nums [Some 5, Some 50]),
      (''avg_transaction_value'', Nums [Some 5, Some 25]),
      (''total_items'', Int64s [1, 5])]"



text \<open>A transactions table without the column of transaction identifiers.\<close>

definition no_id_transactions :: "nat frame" where
  "no_id_transactions =
     [(''CustomerID'', Ids [Some 1]),
      (''Quantity'', Int64s [1]),
      (''TotalValue'', Nums [Some 10]),
      (''TransactionDate'', Dates [Some (2024, 1, 5)])]"

text \<open>The same table with the three columns that the summary and the charts add.\<close>

definition no_id_transactions_after :: "nat frame" where
  "no_id_transactions_after =
     [(''CustomerID'', Ids [Some 1]),
      (''Quantity'', Int64s [1]),
      (''TotalValue'', Nums [Some 10]),
      (''TransactionDate'', Dates [Some (2024, 1, 5)]),
      (''Year'', Nums [Some 2024]),
      (''Month'', Nums [Some 1]),
      (''YearMonth'', Periods [Some (2024, 1)])]"

text \<open>Customer identifiers read as numbers in the transactions and in one customers
  table, and as text in another customers table.\<close>

definition numbered_transactions :: "nat frame" where
  "numbered_transactions =
     [(''TransactionID'', Int64s [1]),
      (''CustomerID'', Int64s [1]),
      (''Quantity'', Int64s [1]),
      (''TotalValue'', Nums [Some 10])]"

definition numbered_customers :: "nat frame" where
  "numbered_customers = [(''CustomerID'', Int64s [1]), (''Region'', Strs [Some ''Asia''])]"

definition text_customers :: "nat frame" where
  "text_customers = [(''CustomerID'', Strs [Some ''C1'']), (''Region'', Strs [Some ''Asia''])]"

text \<open>The sample transactions with the three columns that the summary and the charts
  add.\<close>

definition sample_transactions_after :: "nat frame" where
  "sample_transactions_after =
     [(''TransactionID'', Ids [Some 1, Some 2, Some 3]),
      (''CustomerID'', Ids [Some 1, Some 1, Some 2]),
      (''ProductID'', Ids [Some 1, Some 1, Some 1]),
      (''Quantity'', Int64s [2, 1, 3]),
      (''TotalValue'', Nums [Some 20, Some 5, Some 30]),
      (''TransactionDate'', Dates [Some (2024, 1, 5), Some (2024, 2, 1), Some (2023, 12, 31)]),
      (''Year'', Nums [Some 2024, Some 2024, Some 2023]),
      (''Month'', Nums [Some 1, Some 2, Some 12]),
      (''YearMonth'', Periods [Some (2024, 1), Some (2024, 2), Some (2023, 12)])]"

text \<open>The transactions table that a file with the header line alone gives: six columns
  of text without a row, the dates made timestamps. The table that the aggregator makes
  of it.\<close>

definition empty_transactions :: "nat frame" where
  "empty_transactions =
     [(''TransactionID'', Strs []),
      (''CustomerID'', Strs []),
      (''ProductID'', Strs []),
      (''Quantity'', Strs []),
      (''TotalValue'', Strs []),
      (''TransactionDate'', Dates [])]"

definition empty_behavior :: "nat frame" where
  "empty_behavior =
     [(''CustomerID'', Strs []),
      (''total_transactions'', Int64s []),
      (''total_spend'', Strs []),
      (''avg_transaction_value'', Strs []),
      (''total_items'', Strs [])]"

text \<open>A store with the three sample tables.\<close>

definition sample_store :: "nat store" where
  "sample_store = [Table sample_customers, Table sample_products, Table mixed_transactions]"


text \<open>The same store after a call of the aggregator on its customers and transactions:
  the selection of two columns, the join and the table of the call are new objects.\<close>

definition sample_store_after :: "nat store" where
  "sample_store_after =
     sample_store @
     [Table [(''CustomerID'', Ids [Some 1]), (''Region'', Strs [Some ''Asia''])],
      Table [(''TransactionID'', Strs [Some ''T2'']),
             (''CustomerID'', Ids [Some 1]),
             (''Quantity'', Int64s [1]),
             (''TotalValue'', Nums [Some 5]),
             (''Region'', Strs [Some ''Asia''])],
      Table mixed_behavior]"
section \<open>Basic facts\<close>

lemma andthen_Inl [simp]: "andthen (Inl e) f = Inl e"
  by (simp add: andthen_def)

lemma andthen_Inr [simp]: "andthen (Inr v) f = f v"
  by (simp add: andthen_def)

lemma andthen_eq_Inr: "andthen r f = Inr y \<longleftrightarrow> (\<exists>v. r = Inr v \<and> f v = Inr y)"
  by (cases r) simp_all

lemma andthen_assoc: "andthen (andthen r f) g = andthen r (\<lambda>x. andthen (f x) g)"
  by (cases r) simp_all

lemma getitem_eq_Inr: "getitem df l = Inr s \<longleftrightarrow> map_of df l = Some s"
  by (simp add: getitem_def split: option.splits)

lemma set_dropna: "set (dropna xs) = {x. Some x \<in> set xs}"
  by (induction xs rule: dropna.induct) auto

lemma length_uniq: "length (uniq xs) = card {x. Some x \<in> set xs}"
  by (simp add: uniq_def length_remdups_card_conv set_dropna)

lemma dropna_map:
  "dropna (map f js) = map (\<lambda>j. the (f j)) (filter (\<lambda>j. f j \<noteq> None) js)"
proof (induction js)
  case Nil
  show ?case by simp
next
  case (Cons j js)
  then show ?case by (cases "f j") simp_all
qed

lemma dropna_map_Some [simp]: "dropna (map Some xs) = xs"
  by (induction xs) simp_all

lemma increasing_uniq: "increasing (map Some (uniq xs))"
  by (auto simp: increasing_def uniq_def strict_sorted_iff)

lemma ascending_group_keys: "ascending (group_keys kc)"
proof (cases kc)
  case (Int64s xs)
  then show ?thesis
    by (simp add: uniq_def strict_sorted_iff)
qed (simp_all add: increasing_uniq)

lemma card_notna_cells:
  fixes f :: "'a option \<Rightarrow> 'k cell"
  assumes f: "\<And>x. isna (f x) \<longleftrightarrow> x = None" and i: "inj f"
  shows "card {x \<in> f ` set xs. \<not> isna x} = card {x. Some x \<in> set xs}"
proof -
  have "{x \<in> f ` set xs. \<not> isna x} = (\<lambda>x. f (Some x)) ` {x. Some x \<in> set xs}"
    using f by (auto simp: image_iff)
  moreover have "inj_on (\<lambda>x. f (Some x)) {x. Some x \<in> set xs}"
    using i by (auto simp: inj_on_def)
  ultimately show ?thesis by (simp add: card_image)
qed

lemma card_int_cells:
  "card {x \<in> (\<lambda>x. Num (Some (real_of_int x)) :: 'k cell) ` set xs. \<not> isna x} = card (set xs)"
proof -
  have "{x \<in> (\<lambda>x. Num (Some (real_of_int x)) :: 'k cell) ` set xs. \<not> isna x}
          = (\<lambda>x. Num (Some (real_of_int x))) ` set xs"
    by auto
  moreover have "card ((\<lambda>x. Num (Some (real_of_int x)) :: 'k cell) ` set xs) = card (set xs)"
    by (rule card_image) (simp add: inj_on_def)
  ultimately show ?thesis
    by simp
qed

lemma length_group_keys: "length (notna (group_keys kc)) = card {x \<in> set (cells kc). \<not> isna x}"
proof (cases kc)
  case (Int64s xs)
  have "length (uniq (map Some xs)) = card (set xs)"
    by (simp add: uniq_def length_remdups_card_conv)
  with Int64s show ?thesis
    by (simp add: card_int_cells)
qed (simp_all add: length_uniq card_notna_cells inj_on_def)

lemma cells_group_keys:
  "set (cells (group_keys kc)) = {x \<in> set (cells kc). \<not> isna x}"
  by (cases kc) (auto simp: uniq_def set_dropna image_iff)

lemma distinct_cells_group_keys: "distinct (cells (group_keys kc))"
  by (cases kc) (simp_all add: distinct_map uniq_def inj_on_def)

lemma nrows_Cons: "nrows ((l, c) # df) = length (notna c)"
  by (simp add: nrows_def)

lemma masks_keys:
  "map (\<lambda>m. f (select m xs)) (group_masks kc)
     = map (\<lambda>k. f (select (customer_rows kc k) xs)) (cells (group_keys kc))"
  by (cases kc) (simp_all add: masks_of_def customer_rows_def comp_def)

text \<open>Selecting by the mask of a customer is reading at the positions of the customer's
  rows.\<close>

lemma select_nth:
  "length xs = length ks
     \<Longrightarrow> select (map P ks) xs = map (\<lambda>j. xs ! j) (filter (\<lambda>j. P (ks ! j)) [0..<length ks])"
proof (induction ks arbitrary: xs rule: rev_induct)
  case Nil
  then show ?case by (simp add: select_def)
next
  case (snoc k ks)
  then obtain y ys where xs: "xs = ys @ [y]" and len: "length ys = length ks"
    by (cases xs rule: rev_cases) auto
  have "filter (\<lambda>j. P ((ks @ [k]) ! j)) [0..<length ks]
          = filter (\<lambda>j. P (ks ! j)) [0..<length ks]"
    by (auto simp: nth_append intro!: filter_cong)
  moreover have "map (\<lambda>j. (ys @ [y]) ! j) (filter (\<lambda>j. P (ks ! j)) [0..<length ks])
          = map (\<lambda>j. ys ! j) (filter (\<lambda>j. P (ks ! j)) [0..<length ks])"
    using len by (auto simp: nth_append)
  moreover have "select (map P (ks @ [k])) (ys @ [y])
          = select (map P ks) ys @ (if P k then [y] else [])"
    using len by (simp add: select_def)
  ultimately show ?case
    using snoc.IH [OF len] len by (simp add: xs nth_append)
qed

lemma select_rows_of:
  assumes "length xs = length (cells kc)"
  shows "select (customer_rows kc k) xs = map (\<lambda>j. xs ! j) (rows_of kc k)"
  using select_nth [OF assms, of "\<lambda>x. x = k"] by (simp add: customer_rows_def rows_of_def)

lemma length_notna: "length (notna c) = length (cells c)"
  by (cases c) simp_all

lemma notna_nth: "j < length (cells c) \<Longrightarrow> notna c ! j \<longleftrightarrow> \<not> isna (cells c ! j)"
  by (cases c) simp_all

section \<open>The store\<close>

lemma table_at_append [simp]: "r < length s \<Longrightarrow> table_at (s @ s') r = table_at s r"
  by (simp add: table_at_def nth_append)

lemma table_at_new [simp]: "table_at (s @ Table df # s') (length s) = df"
  by (simp add: table_at_def)

text \<open>The call on a store, for references to objects of the store: three objects are
  added, and none of the store is changed.\<close>

lemma analyze_on_eq:
  assumes "c < length s" and "t < length s"
  shows "analyze_customer_behavior_on fl s c t =
     andthen (getitems (table_at s c) [''CustomerID'', ''Region'']) (\<lambda>sub.
     andthen (merge (table_at s t) sub ''CustomerID'') (\<lambda>joined.
     andthen (groupby (table_at s t) ''CustomerID'') (\<lambda>g.
     andthen (agg fl g [(''TransactionID'', [Count]), (''TotalValue'', [Sum, Mean]),
                        (''Quantity'', [Sum])]) (\<lambda>a.
     andthen (set_columns (reset_index a)
                [''CustomerID'', ''total_transactions'', ''total_spend'',
                 ''avg_transaction_value'', ''total_items'']) (\<lambda>df.
       Inr (length s + 2, s @ [Table sub, Table joined, Table df]))))))"
proof -
  have new: "table_at ((s @ [Table sub]) @ [Table joined]) t = table_at s t"
    "table_at (s @ [Table sub]) t = table_at s t"
    "table_at (s @ [Table sub]) (length s) = sub" for sub joined :: "'a frame"
    using assms by simp_all
  have set: "set_columns_at (s @ [Table sub, Table joined, Wide w]) (Suc (Suc (length s))) names
      = andthen (set_columns w names) (\<lambda>df. Inr (s @ [Table sub, Table joined, Table df]))"
    for sub joined :: "'a frame" and w names
    by (simp add: set_columns_at_def nth_append list_update_append)
  show ?thesis
    unfolding analyze_customer_behavior_on_def alloc_def Let_def prod.case
    by (simp add: new set andthen_assoc assms)
qed


section \<open>What the behaviour aggregator returns\<close>

text \<open>The call on two tables, without the store.\<close>

lemma analyze_eq:
  "analyze_customer_behavior fl c t =
     andthen (getitems c [''CustomerID'', ''Region'']) (\<lambda>sub.
     andthen (merge t sub ''CustomerID'') (\<lambda>joined.
     andthen (groupby t ''CustomerID'') (\<lambda>g.
     andthen (agg fl g [(''TransactionID'', [Count]), (''TotalValue'', [Sum, Mean]),
                        (''Quantity'', [Sum])]) (\<lambda>a.
     andthen (set_columns (reset_index a)
                [''CustomerID'', ''total_transactions'', ''total_spend'',
                 ''avg_transaction_value'', ''total_items'']) (\<lambda>df.
       Inr (df, c, t))))))"
proof -
  have "table_at [Table c, Table t] 0 = c" "table_at [Table c, Table t] (Suc 0) = t"
    "table_at [Table c, Table t, Table sub, Table joined, Table df] (Suc (Suc (Suc (Suc 0)))) = df"
    "table_at [Table c, Table t, Table sub, Table joined, Table df] 0 = c"
    "table_at [Table c, Table t, Table sub, Table joined, Table df] (Suc 0) = t"
    for sub joined df :: "'a frame"
    by (simp_all add: table_at_def)
  then show ?thesis
    by (simp add: analyze_customer_behavior_def analyze_on_eq andthen_assoc)
qed

lemma agg_eq_Inr:
  "agg fl g spec = Inr a \<longleftrightarrow>
     (filter (\<lambda>l. map_of (obj g) l = None) (map fst spec) = []
      \<and> (\<exists>cs. agg_each fl (obj g) (group_masks (by_column g)) spec = Inr cs
             \<and> a = \<lparr>index_name = by_label g, index = group_keys (by_column g), data = cs\<rparr>))"
  by (auto simp: agg_def Let_def andthen_eq_Inr)

lemma groupby_eq_Inr:
  "groupby df key = Inr g \<longleftrightarrow>
     (\<exists>c. getitem df key = Inr c \<and> g = \<lparr>obj = df, by_label = key, by_column = c\<rparr>)"
  by (auto simp: groupby_def andthen_eq_Inr)

lemma analyze_Inr:
  assumes "analyze_customer_behavior fl c t = Inr (out, c', t')"
  shows "\<exists>kc tid tv q sp av it.
      getitem t ''CustomerID'' = Inr kc \<and> getitem t ''TransactionID'' = Inr tid
    \<and> getitem t ''TotalValue'' = Inr tv \<and> getitem t ''Quantity'' = Inr q
    \<and> agg_column fl (group_masks kc) tv Sum = Inr sp
    \<and> agg_column fl (group_masks kc) tv Mean = Inr av
    \<and> agg_column fl (group_masks kc) q Sum = Inr it
    \<and> out = [(''CustomerID'', group_keys kc),
             (''total_transactions'',
                Int64s (map (\<lambda>m. count (select m (notna tid))) (group_masks kc))),
             (''total_spend'', sp),
             (''avg_transaction_value'', av),
             (''total_items'', it)]
    \<and> c' = c \<and> t' = t"
proof -
  from assms obtain g a where
    g: "groupby t ''CustomerID'' = Inr g"
    and a: "agg fl g [(''TransactionID'', [Count]), (''TotalValue'', [Sum, Mean]), (''Quantity'', [Sum])] = Inr a"
    and o: "set_columns (reset_index a) [''CustomerID'', ''total_transactions'', ''total_spend'',
                 ''avg_transaction_value'', ''total_items''] = Inr out"
    and ct: "c' = c" "t' = t"
    unfolding analyze_eq andthen_eq_Inr by auto
  from g obtain kc where kc: "getitem t ''CustomerID'' = Inr kc"
    and gd: "g = \<lparr>obj = t, by_label = ''CustomerID'', by_column = kc\<rparr>"
    unfolding groupby_eq_Inr by auto
  from a obtain cs where cs: "agg_each fl t (group_masks kc)
       [(''TransactionID'', [Count]), (''TotalValue'', [Sum, Mean]), (''Quantity'', [Sum])] = Inr cs"
    and ad: "a = \<lparr>index_name = ''CustomerID'', index = group_keys kc, data = cs\<rparr>"
    unfolding agg_eq_Inr gd by auto
  from cs obtain tid tv q r1 r2 r3 where
        tid: "getitem t ''TransactionID'' = Inr tid"
    and tv: "getitem t ''TotalValue'' = Inr tv"
    and q: "getitem t ''Quantity'' = Inr q"
    and r1: "agg_funcs fl (group_masks kc) ''TransactionID'' tid [Count] = Inr r1"
    and r2: "agg_funcs fl (group_masks kc) ''TotalValue'' tv [Sum, Mean] = Inr r2"
    and r3: "agg_funcs fl (group_masks kc) ''Quantity'' q [Sum] = Inr r3"
    and csd: "cs = r1 @ r2 @ r3"
    unfolding agg_each.simps andthen_eq_Inr by auto
  from r1 have r1d: "r1 = [((''TransactionID'', ''count''),
        Int64s (map (\<lambda>m. count (select m (notna tid))) (group_masks kc)))]"
    by (auto simp: andthen_eq_Inr)
  from r2 obtain sp av where sp: "agg_column fl (group_masks kc) tv Sum = Inr sp"
    and av: "agg_column fl (group_masks kc) tv Mean = Inr av"
    and r2d: "r2 = [((''TotalValue'', ''sum''), sp), ((''TotalValue'', ''mean''), av)]"
    unfolding agg_funcs.simps andthen_eq_Inr by auto
  from r3 obtain it where it: "agg_column fl (group_masks kc) q Sum = Inr it"
    and r3d: "r3 = [((''Quantity'', ''sum''), it)]"
    unfolding agg_funcs.simps andthen_eq_Inr by auto
  from o have "out = [(''CustomerID'', group_keys kc),
             (''total_transactions'',
                Int64s (map (\<lambda>m. count (select m (notna tid))) (group_masks kc))),
             (''total_spend'', sp),
             (''avg_transaction_value'', av),
             (''total_items'', it)]"
    unfolding ad csd r1d r2d r3d reset_index_def set_columns_def by (simp split: if_splits)
  with kc tid tv q sp av it ct show ?thesis by blast
qed

text \<open>The aggregates, read at the positions of each customer's rows.\<close>

lemma agg_sum_nums:
  assumes "agg_column fl (group_masks kc) (Nums vs) Sum = Inr r"
    and "length vs = length (cells kc)"
  shows "r = Nums (map (\<lambda>k. nansum fl (map (\<lambda>j. vs ! j) (rows_of kc k))) (cells (group_keys kc)))"
  using assms by (auto simp: masks_keys [where f = "nansum fl"] select_rows_of)

lemma sum_over_int:
  "sum_over fl (Int64s xs) js = Num (Some (real_of_int (wrap64 (\<Sum>j\<leftarrow>js. xs ! j))))"
  by (simp add: wrap64_def)

lemma agg_sum_cells:
  assumes "agg_column fl (group_masks kc) col Sum = Inr r"
    and "is_nums col" and "length (cells col) = length (cells kc)"
  shows "cells r = map (\<lambda>k. sum_over fl col (rows_of kc k)) (cells (group_keys kc))"
proof (cases col)
  case (Int64s xs)
  with assms(3) have "length xs = length (cells kc)" by simp
  with assms(1) Int64s show ?thesis
    by (auto simp: masks_keys [where f = "\<lambda>ys. wrap64 (sum_list ys)"] select_rows_of
        sum_over_int simp del: sum_over.simps(1))
next
  case (Nums vs)
  with assms(3) have "length vs = length (cells kc)" by simp
  with assms(1) Nums have "r = Nums (map (\<lambda>k. nansum fl (map (\<lambda>j. vs ! j) (rows_of kc k)))
      (cells (group_keys kc)))"
    by (simp add: agg_sum_nums)
  with Nums show ?thesis
    by (simp add: nansum_def comp_def dropna_map Let_def)
qed (use assms(2) in simp_all)

lemma count_cells:
  assumes "length (cells tid) = length (cells kc)"
  shows "map (\<lambda>m. count (select m (notna tid))) (group_masks kc)
       = map (\<lambda>k. int (length (filter (\<lambda>j. \<not> isna (cells tid ! j)) (rows_of kc k))))
           (cells (group_keys kc))"
proof -
  have "count (select (customer_rows kc k) (notna tid))
          = int (length (filter (\<lambda>j. \<not> isna (cells tid ! j)) (rows_of kc k)))" for k
  proof -
    have "select (customer_rows kc k) (notna tid) = map (\<lambda>j. notna tid ! j) (rows_of kc k)"
      using assms by (simp add: select_rows_of length_notna)
    moreover have "filter (\<lambda>j. notna tid ! j) (rows_of kc k)
        = filter (\<lambda>j. \<not> isna (cells tid ! j)) (rows_of kc k)"
      using assms by (auto simp: rows_of_def notna_nth intro!: filter_cong)
    ultimately show ?thesis
      by (simp add: count_def filter_map comp_def)
  qed
  then show ?thesis
    by (simp add: masks_keys [where f = count])
qed


lemma rectangular_column:
  "rectangular df \<Longrightarrow> map_of df l = Some c \<Longrightarrow> length (cells c) = nrows df"
  by (auto simp: rectangular_def list_all_iff dest!: map_of_SomeD)

lemma rectangular_columns:
  assumes "rectangular df" and "getitem df l = Inr c" and "getitem df l' = Inr c'"
  shows "length (cells c) = length (cells c')"
  using assms by (simp add: getitem_eq_Inr rectangular_column)


section \<open>When the behaviour aggregator fails\<close>

lemma has_columns_two:
  "has_columns df [a, b] \<longleftrightarrow> map_of df a \<noteq> None \<and> map_of df b \<noteq> None"
  by (simp add: has_columns_def)

lemma has_columns_four:
  "has_columns df [a, b, c, d] \<longleftrightarrow>
     map_of df a \<noteq> None \<and> map_of df b \<noteq> None \<and> map_of df c \<noteq> None \<and> map_of df d \<noteq> None"
  by (simp add: has_columns_def)

lemma getitems_two:
  "getitems df [a, b] =
     (if has_columns df [a, b] then Inr [(a, the (map_of df a)), (b, the (map_of df b))]
      else Inl (KeyError (filter (\<lambda>l. map_of df l = None) [a, b])))"
  by (auto simp: getitems_def has_columns_two)

lemma merge_Inr:
  "getitem l on = Inr lk \<Longrightarrow> getitem r on = Inr rk \<Longrightarrow> \<not> incompatible_keys lk rk
     \<Longrightarrow> \<exists>m. merge l r on = Inr m"
  by (simp add: merge_def Let_def)

lemma merge_Inl_left: "getitem l on = Inl e \<Longrightarrow> merge l r on = Inl e"
  by (simp add: merge_def)

lemma map_sum_Inr_D: "map_sum id fst x = Inr out \<Longrightarrow> \<exists>a b. x = Inr (out, a, b)"
  by (cases x) auto

lemma map_sum_Inl_D: "map_sum id fst x = Inl e \<Longrightarrow> x = Inl e"
  by (cases x) auto

lemma map_sum_snd_Inr_D: "map_sum id snd x = Inr y \<Longrightarrow> \<exists>m. x = Inr (m, y)"
  by (cases x) auto

text \<open>With a customers table that has its two columns and can be joined, the result is
  the grouped aggregation of the transactions table.\<close>

lemma analyze_indep:
  assumes "has_columns c [''CustomerID'', ''Region'']" and "joinable t c"
  shows "map_sum id fst (analyze_customer_behavior fl c t) =
     andthen (groupby t ''CustomerID'') (\<lambda>g.
     andthen (agg fl g [(''TransactionID'', [Count]), (''TotalValue'', [Sum, Mean]),
                        (''Quantity'', [Sum])]) (\<lambda>a.
       set_columns (reset_index a)
          [''CustomerID'', ''total_transactions'', ''total_spend'',
           ''avg_transaction_value'', ''total_items'']))"
proof -
  from assms(1) obtain ck cr where ck: "map_of c ''CustomerID'' = Some ck"
    and cr: "map_of c ''Region'' = Some cr"
    by (auto simp: has_columns_two)
  let ?sub = "[(''CustomerID'', ck), (''Region'', cr)]"
  have sub: "getitems c [''CustomerID'', ''Region''] = Inr ?sub"
    by (simp add: getitems_two assms(1) ck cr)
  have rk: "getitem ?sub ''CustomerID'' = Inr ck"
    by (simp add: getitem_def)
  show ?thesis
  proof (cases "map_of t ''CustomerID''")
    case None
    then have "getitem t ''CustomerID'' = Inl (KeyError [''CustomerID''])"
      by (simp add: getitem_def)
    then show ?thesis
      by (simp add: analyze_eq sub merge_Inl_left groupby_def)
  next
    case (Some kc)
    then have lk: "getitem t ''CustomerID'' = Inr kc"
      by (simp add: getitem_def)
    from Some assms(2) ck have "\<not> incompatible_keys kc ck"
      by (simp add: joinable_def)
    from merge_Inr [OF lk rk this] obtain m where m: "merge t ?sub ''CustomerID'' = Inr m" ..
    show ?thesis
      unfolding analyze_eq sub m andthen_Inr
      by (auto simp: andthen_def split: sum.splits)
  qed
qed

lemma aggregation_eq:
  assumes "map_of t ''CustomerID'' = Some kc" and "map_of t ''TransactionID'' = Some tid"
    and "map_of t ''TotalValue'' = Some tv" and "map_of t ''Quantity'' = Some q"
  shows "andthen (groupby t ''CustomerID'') (\<lambda>g.
     andthen (agg fl g [(''TransactionID'', [Count]), (''TotalValue'', [Sum, Mean]),
                        (''Quantity'', [Sum])]) (\<lambda>a.
       set_columns (reset_index a)
          [''CustomerID'', ''total_transactions'', ''total_spend'',
           ''avg_transaction_value'', ''total_items'']))
     = andthen (agg_column fl (group_masks kc) tv Sum) (\<lambda>sp.
       andthen (agg_column fl (group_masks kc) tv Mean) (\<lambda>av.
       andthen (agg_column fl (group_masks kc) q Sum) (\<lambda>it.
         Inr [(''CustomerID'', group_keys kc),
              (''total_transactions'',
                 Int64s (map (\<lambda>m. count (select m (notna tid))) (group_masks kc))),
              (''total_spend'', sp),
              (''avg_transaction_value'', av),
              (''total_items'', it)])))"
  using assms
  by (simp add: groupby_def getitem_def agg_def reset_index_def set_columns_def andthen_assoc)

lemma aggregation_fails:
  assumes "\<not> has_columns t [''CustomerID'', ''TransactionID'', ''TotalValue'', ''Quantity'']"
  shows "\<exists>ls. andthen (groupby t ''CustomerID'') (\<lambda>g.
     andthen (agg fl g [(''TransactionID'', [Count]), (''TotalValue'', [Sum, Mean]),
                        (''Quantity'', [Sum])]) (\<lambda>a.
       set_columns (reset_index a)
          [''CustomerID'', ''total_transactions'', ''total_spend'',
           ''avg_transaction_value'', ''total_items''])) = Inl (KeyError ls)"
proof (cases "map_of t ''CustomerID''")
  case None
  then show ?thesis
    by (simp add: groupby_def getitem_def)
next
  case (Some kc)
  with assms have "filter (\<lambda>l. map_of t l = None) [''TransactionID'', ''TotalValue'', ''Quantity''] \<noteq> []"
    by (auto simp: has_columns_four)
  with Some show ?thesis
    by (simp add: groupby_def getitem_def agg_def Let_def del: filter.simps)
qed

lemma agg_column_numeric: "is_nums col \<Longrightarrow> \<exists>r. agg_column fl ms col f = Inr r"
  by (cases col; cases f) simp_all

lemma agg_column_no_group:
  "is_plain col \<Longrightarrow> \<exists>r. agg_column fl [] col f = Inr r \<and> cells r = []"
  by (cases col; cases f) simp_all

lemma numeric_Some: "numeric df l \<Longrightarrow> map_of df l = Some col \<Longrightarrow> is_nums col"
  by (simp add: numeric_def)

lemma plain_Some: "plain df l \<Longrightarrow> map_of df l = Some col \<Longrightarrow> is_plain col"
  by (simp add: plain_def)

text \<open>The call returns when the tables have their columns, the identifiers can be joined
  and the three aggregations of the two aggregated columns succeed.\<close>

lemma analyze_returns:
  assumes "has_columns c [''CustomerID'', ''Region'']" and "joinable t c"
    and "map_of t ''CustomerID'' = Some kc" and "map_of t ''TransactionID'' = Some tid"
    and "map_of t ''TotalValue'' = Some tv" and "map_of t ''Quantity'' = Some q"
    and "agg_column fl (group_masks kc) tv Sum = Inr sp"
    and "agg_column fl (group_masks kc) tv Mean = Inr av"
    and "agg_column fl (group_masks kc) q Sum = Inr it"
  shows "analyze_customer_behavior fl c t =
       Inr ([(''CustomerID'', group_keys kc),
             (''total_transactions'',
                Int64s (map (\<lambda>m. count (select m (notna tid))) (group_masks kc))),
             (''total_spend'', sp),
             (''avg_transaction_value'', av),
             (''total_items'', it)], c, t)"
proof -
  have "map_sum id fst (analyze_customer_behavior fl c t) =
       Inr [(''CustomerID'', group_keys kc),
             (''total_transactions'',
                Int64s (map (\<lambda>m. count (select m (notna tid))) (group_masks kc))),
             (''total_spend'', sp),
             (''avg_transaction_value'', av),
             (''total_items'', it)]"
    by (simp add: analyze_indep [OF assms(1,2)] aggregation_eq [OF assms(3,4,5,6)] assms(7,8,9))
  from map_sum_Inr_D [OF this] obtain c' t' where
    r: "analyze_customer_behavior fl c t =
       Inr ([(''CustomerID'', group_keys kc),
             (''total_transactions'',
                Int64s (map (\<lambda>m. count (select m (notna tid))) (group_masks kc))),
             (''total_spend'', sp),
             (''avg_transaction_value'', av),
             (''total_items'', it)], c', t')"
    by blast
  from analyze_Inr [OF r] have "c' = c" "t' = t" by auto
  with r show ?thesis by simp
qed

lemma analyze_returns_numeric:
  assumes "has_columns c [''CustomerID'', ''Region'']" and "joinable t c"
    and "has_columns t [''CustomerID'', ''TransactionID'', ''TotalValue'', ''Quantity'']"
    and "numeric t ''TotalValue''" and "numeric t ''Quantity''"
  shows "\<exists>out. analyze_customer_behavior fl c t = Inr (out, c, t)"
proof -
  from assms(3) obtain kc tid tv q where
    kc: "map_of t ''CustomerID'' = Some kc" and tid: "map_of t ''TransactionID'' = Some tid"
    and tv: "map_of t ''TotalValue'' = Some tv" and q: "map_of t ''Quantity'' = Some q"
    by (auto simp: has_columns_four)
  from numeric_Some [OF assms(4) tv] have ntv: "is_nums tv" .
  from numeric_Some [OF assms(5) q] have nq: "is_nums q" .
  from agg_column_numeric [OF ntv] obtain sp where sp: "agg_column fl (group_masks kc) tv Sum = Inr sp"
    by blast
  from agg_column_numeric [OF ntv] obtain av where av: "agg_column fl (group_masks kc) tv Mean = Inr av"
    by blast
  from agg_column_numeric [OF nq] obtain it where it: "agg_column fl (group_masks kc) q Sum = Inr it"
    by blast
  from analyze_returns [OF assms(1,2) kc tid tv q sp av it] show ?thesis by blast
qed

lemma analyze_no_customers_columns:
  assumes "\<not> has_columns c [''CustomerID'', ''Region'']"
  shows "\<exists>ls. analyze_customer_behavior fl c t = Inl (KeyError ls)"
  using assms by (simp add: analyze_eq getitems_two)

lemma analyze_no_transactions_columns:
  assumes "has_columns c [''CustomerID'', ''Region'']" and "joinable t c"
    and "\<not> has_columns t [''CustomerID'', ''TransactionID'', ''TotalValue'', ''Quantity'']"
  shows "\<exists>ls. analyze_customer_behavior fl c t = Inl (KeyError ls)"
proof -
  from aggregation_fails [OF assms(3)] analyze_indep [OF assms(1,2)] obtain ls
    where "map_sum id fst (analyze_customer_behavior fl c t) = Inl (KeyError ls)"
    by metis
  then have "analyze_customer_behavior fl c t = Inl (KeyError ls)"
    by (rule map_sum_Inl_D)
  then show ?thesis ..
qed

lemma no_rows_column: "no_rows df \<Longrightarrow> map_of df l = Some col \<Longrightarrow> cells col = []"
  by (auto simp: no_rows_def list_all_iff dest!: map_of_SomeD)

lemma group_of_no_rows:
  "cells kc = [] \<Longrightarrow> group_masks kc = [] \<and> cells (group_keys kc) = []"
  by (cases kc) (simp_all add: masks_of_def uniq_def)


section \<open>The run as a whole\<close>

lemma map_of_setitem: "map_of (setitem df c s) l = (if l = c then Some s else map_of df l)"
  by (induction df c s rule: setitem.induct) auto

lemma labels_setitem:
  "labels (setitem df c s) = (if c \<in> set (labels df) then labels df else labels df @ [c])"
  by (induction df c s rule: setitem.induct) (auto simp: labels_def)

lemma getitem_setitem:
  "getitem (setitem df c s) l = (if l = c then Inr s else getitem df l)"
  by (simp add: getitem_def map_of_setitem)

lemma dt_year_Inr:
  "dt_year d = Inr y \<longleftrightarrow>
     (\<exists>ds. d = Dates ds \<and> y = Nums (map (map_option (\<lambda>(y, m, d). real_of_int y)) ds))"
  by (cases d) auto

lemma dt_month_Inr:
  "dt_month d = Inr y \<longleftrightarrow>
     (\<exists>ds. d = Dates ds \<and> y = Nums (map (map_option (\<lambda>(y, m, d). real m)) ds))"
  by (cases d) auto

lemma dt_to_period_M_Inr:
  "dt_to_period_M d = Inr y \<longleftrightarrow>
     (\<exists>ds. d = Dates ds \<and> y = Periods (map (map_option (\<lambda>(y, m, d). (y, m))) ds))"
  by (cases d) auto

text \<open>The summary leaves the customers and the products as they were and sets the
  columns \<open>Year\<close> and \<open>Month\<close> of the transactions.\<close>

lemma perform_eda_Inr:
  assumes "perform_eda fl c p t = Inr (m, c', p', t')"
  shows "c' = c \<and> p' = p
       \<and> (\<exists>ds. getitem t ''TransactionDate'' = Inr (Dates ds)
              \<and> t' = setitem (setitem t ''Year'' (Nums (map (map_option (\<lambda>(y, m, d). real_of_int y)) ds)))
                        ''Month'' (Nums (map (map_option (\<lambda>(y, m, d). real m)) ds)))"
proof -
  from assms obtain d1 year d2 month where
    d1: "getitem t ''TransactionDate'' = Inr d1" and y: "dt_year d1 = Inr year"
    and d2: "getitem (setitem t ''Year'' year) ''TransactionDate'' = Inr d2"
    and mo: "dt_month d2 = Inr month"
    and r: "c' = c" "p' = p" "t' = setitem (setitem t ''Year'' year) ''Month'' month"
    unfolding perform_eda_def andthen_eq_Inr Let_def
    by (elim exE conjE) simp
  from d1 d2 have "d2 = d1"
    by (simp add: getitem_setitem)
  with y mo d1 r show ?thesis
    by (auto simp: dt_year_Inr dt_month_Inr)
qed

text \<open>The charts leave the customers and the products as they were and set the column
  \<open>YearMonth\<close> of the transactions.\<close>

lemma generate_visualizations_Inr:
  assumes "generate_visualizations fl c p t = Inr (c', p', t')"
  shows "c' = c \<and> p' = p
       \<and> (\<exists>ds. getitem t ''TransactionDate'' = Inr (Dates ds)
              \<and> t' = setitem t ''YearMonth'' (Periods (map (map_option (\<lambda>(y, m, d). (y, m))) ds)))"
proof -
  from assms obtain d ym where
    d: "getitem t ''TransactionDate'' = Inr d" and ym: "dt_to_period_M d = Inr ym"
    and r: "c' = c" "p' = p" "t' = setitem t ''YearMonth'' ym"
    unfolding generate_visualizations_def andthen_eq_Inr Let_def
    by (elim exE conjE) simp
  then show ?thesis
    by (auto simp: dt_to_period_M_Inr)
qed

lemma main_Inr:
  assumes "main fl c p t = Inr (r, c', p', t')"
  shows "c' = c \<and> p' = p
       \<and> (\<exists>ds. getitem t ''TransactionDate'' = Inr (Dates ds)
              \<and> t' = setitem (setitem (setitem t
                        ''Year'' (Nums (map (map_option (\<lambda>(y, m, d). real_of_int y)) ds)))
                        ''Month'' (Nums (map (map_option (\<lambda>(y, m, d). real m)) ds)))
                        ''YearMonth'' (Periods (map (map_option (\<lambda>(y, m, d). (y, m))) ds)))"
proof -
  from assms obtain m c1 p1 t1 c2 p2 t2 b c3 t3 where
    pe: "perform_eda fl c p t = Inr (m, c1, p1, t1)"
    and gv: "generate_visualizations fl c1 p1 t1 = Inr (c2, p2, t2)"
    and an: "analyze_customer_behavior fl c2 t2 = Inr (b, c3, t3)"
    and eq: "c' = c3" "p' = p2" "t' = t3"
    by (auto simp: main_def andthen_eq_Inr)
  from analyze_Inr [OF an] have a: "c3 = c2" "t3 = t2" by auto
  from perform_eda_Inr [OF pe] obtain ds where p: "c1 = c" "p1 = p"
    "getitem t ''TransactionDate'' = Inr (Dates ds)"
    "t1 = setitem (setitem t ''Year'' (Nums (map (map_option (\<lambda>(y, m, d). real_of_int y)) ds)))
                        ''Month'' (Nums (map (map_option (\<lambda>(y, m, d). real m)) ds))"
    by auto
  from generate_visualizations_Inr [OF gv] obtain ds' where g: "c2 = c1" "p2 = p1"
    "getitem t1 ''TransactionDate'' = Inr (Dates ds')"
    "t2 = setitem t1 ''YearMonth'' (Periods (map (map_option (\<lambda>(y, m, d). (y, m))) ds'))"
    by auto
  from g(3) p(3,4) have "ds' = ds"
    by (simp add: getitem_setitem)
  with eq a p g show ?thesis
    by simp
qed

lemma main_passes_error:
  "perform_eda fl c0 p0 t0 = Inr (m, c1, p1, t1)
    \<Longrightarrow> generate_visualizations fl c1 p1 t1 = Inr (c, p, t)
    \<Longrightarrow> analyze_customer_behavior fl c t = Inl e \<Longrightarrow> main fl c0 p0 t0 = Inl e"
  by (cases m) (simp add: main_def)

section \<open>The sample runs\<close>

lemmas steps = getitems_def getitem_def merge_def incompatible_keys_def groupby_def agg_def
  reset_index_def set_columns_def masks_of_def uniq_def select_def count_def nansum_def
  nanmean_def join_pairs_def labels_def exact_def wrap64_def

lemma sample_run:
  "analyze_customer_behavior exact sample_customers sample_transactions =
     Inr (sample_behavior, sample_customers, sample_transactions)"
  by (simp add: analyze_eq sample_customers_def sample_transactions_def sample_behavior_def steps)

lemma other_run:
  "analyze_customer_behavior exact other_customers sample_transactions =
     Inr (sample_behavior, other_customers, sample_transactions)"
  by (simp add: analyze_eq other_customers_def sample_transactions_def sample_behavior_def steps)

lemma mixed_run:
  "analyze_customer_behavior exact sample_customers mixed_transactions =
     Inr (mixed_behavior, sample_customers, mixed_transactions)"
  by (simp add: analyze_eq sample_customers_def mixed_transactions_def mixed_behavior_def steps)



lemma empty_run:
  "analyze_customer_behavior exact sample_customers empty_transactions =
     Inr (empty_behavior, sample_customers, empty_transactions)"
  by (simp add: analyze_eq sample_customers_def empty_transactions_def empty_behavior_def steps)

lemma no_id_run:
  "analyze_customer_behavior exact sample_customers no_id_transactions_after
     = Inl (KeyError [''TransactionID''])"
  by (simp add: analyze_eq sample_customers_def no_id_transactions_after_def steps)

lemma no_id_perform_eda:
  "map_sum id snd (perform_eda exact sample_customers sample_products no_id_transactions)
     = Inr (sample_customers, sample_products,
            [(''CustomerID'', Ids [Some 1]),
             (''Quantity'', Int64s [1]),
             (''TotalValue'', Nums [Some 10]),
             (''TransactionDate'', Dates [Some (2024, 1, 5)]),
             (''Year'', Nums [Some 2024]),
             (''Month'', Nums [Some 1])])"
  by (simp add: perform_eda_def sample_customers_def sample_products_def no_id_transactions_def
      getitem_def groupby_def agg_def Let_def)

lemma no_id_generate_visualizations:
  "generate_visualizations exact sample_customers sample_products
            [(''CustomerID'', Ids [Some 1]),
             (''Quantity'', Int64s [1]),
             (''TotalValue'', Nums [Some 10]),
             (''TransactionDate'', Dates [Some (2024, 1, 5)]),
             (''Year'', Nums [Some 2024]),
             (''Month'', Nums [Some 1])]
     = Inr (sample_customers, sample_products, no_id_transactions_after)"
  by (simp add: generate_visualizations_def plot_column_def
      sample_customers_def sample_products_def no_id_transactions_after_def
      getitem_def groupby_def agg_def Let_def)

lemma sample_perform_eda:
  "map_sum id snd (perform_eda exact sample_customers sample_products sample_transactions)
     = Inr (sample_customers, sample_products,
         [(''TransactionID'', Ids [Some 1, Some 2, Some 3]),
          (''CustomerID'', Ids [Some 1, Some 1, Some 2]),
          (''ProductID'', Ids [Some 1, Some 1, Some 1]),
          (''Quantity'', Int64s [2, 1, 3]),
          (''TotalValue'', Nums [Some 20, Some 5, Some 30]),
          (''TransactionDate'', Dates [Some (2024, 1, 5), Some (2024, 2, 1), Some (2023, 12, 31)]),
          (''Year'', Nums [Some 2024, Some 2024, Some 2023]),
          (''Month'', Nums [Some 1, Some 2, Some 12])])"
  by (simp add: perform_eda_def sample_customers_def sample_products_def sample_transactions_def
      getitem_def groupby_def agg_def Let_def)

lemma sample_generate_visualizations:
  "generate_visualizations exact sample_customers sample_products
         [(''TransactionID'', Ids [Some 1, Some 2, Some 3]),
          (''CustomerID'', Ids [Some 1, Some 1, Some 2]),
          (''ProductID'', Ids [Some 1, Some 1, Some 1]),
          (''Quantity'', Int64s [2, 1, 3]),
          (''TotalValue'', Nums [Some 20, Some 5, Some 30]),
          (''TransactionDate'', Dates [Some (2024, 1, 5), Some (2024, 2, 1), Some (2023, 12, 31)]),
          (''Year'', Nums [Some 2024, Some 2024, Some 2023]),
          (''Month'', Nums [Some 1, Some 2, Some 12])]
     = Inr (sample_customers, sample_products, sample_transactions_after)"
  by (simp add: generate_visualizations_def plot_column_def
      sample_customers_def sample_products_def sample_transactions_after_def
      getitem_def groupby_def agg_def Let_def)

lemma sample_after_run:
  "analyze_customer_behavior exact sample_customers sample_transactions_after =
     Inr (sample_behavior, sample_customers, sample_transactions_after)"
  by (simp add: analyze_eq sample_customers_def sample_transactions_after_def
      sample_behavior_def steps)

lemma sample_main:
  "map_sum id snd (main exact sample_customers sample_products sample_transactions)
     = Inr (sample_customers, sample_products, sample_transactions_after)"
proof -
  from map_sum_snd_Inr_D [OF sample_perform_eda] obtain m where
    pe: "perform_eda exact sample_customers sample_products sample_transactions
     = Inr (m, sample_customers, sample_products,
         [(''TransactionID'', Ids [Some 1, Some 2, Some 3]),
          (''CustomerID'', Ids [Some 1, Some 1, Some 2]),
          (''ProductID'', Ids [Some 1, Some 1, Some 1]),
          (''Quantity'', Int64s [2, 1, 3]),
          (''TotalValue'', Nums [Some 20, Some 5, Some 30]),
          (''TransactionDate'', Dates [Some (2024, 1, 5), Some (2024, 2, 1), Some (2023, 12, 31)]),
          (''Year'', Nums [Some 2024, Some 2024, Some 2023]),
          (''Month'', Nums [Some 1, Some 2, Some 12])])" ..
  obtain cm pm tm where m: "m = (cm, pm, tm)"
    by (cases m)
  show ?thesis
    unfolding main_def pe m andthen_Inr prod.case sample_generate_visualizations sample_after_run
    by simp
qed


section \<open>Sums and counts over the rows of a customer\<close>



lemma no_group_no_key: "group_masks kc = [] \<Longrightarrow> cells (group_keys kc) = []"
  by (cases kc) (simp_all add: masks_of_def)

text \<open>Each cell of a column aggregated by \<open>sum\<close> is the sum over the rows of the customer
  of the row.\<close>

lemma agg_sum_rows:
  assumes "agg_column fl (group_masks kc) col Sum = Inr r"
    and "length (cells col) = length (cells kc)"
  shows "cells r = map (\<lambda>k. sum_over fl col (rows_of kc k)) (cells (group_keys kc))"
proof (cases "is_nums col")
  case True
  with assms show ?thesis
    by (simp add: agg_sum_cells)
next
  case False
  with assms(1) have "group_masks kc = [] \<and> cells r = []"
    by (cases col) (auto split: if_splits)
  then show ?thesis
    by (simp add: no_group_no_key)
qed

text \<open>The sums and the count of a table that the aggregator returns, from a rectangular
  transactions table.\<close>

lemma analyze_columns:
  assumes "analyze_customer_behavior fl c t = Inr (out, c', t')"
    and "rectangular t"
    and "getitem t ''CustomerID'' = Inr kc"
    and "getitem t ''TransactionID'' = Inr tid"
    and "getitem t ''TotalValue'' = Inr tv"
    and "getitem t ''Quantity'' = Inr q"
  shows "\<exists>sp av it.
      out = [(''CustomerID'', group_keys kc),
             (''total_transactions'',
                Int64s (map (\<lambda>k. int (length (filter (\<lambda>j. \<not> isna (cells tid ! j)) (rows_of kc k))))
                         (cells (group_keys kc)))),
             (''total_spend'', sp),
             (''avg_transaction_value'', av),
             (''total_items'', it)]
    \<and> agg_column fl (group_masks kc) tv Mean = Inr av
    \<and> agg_column fl (group_masks kc) tv Sum = Inr sp
    \<and> cells sp = map (\<lambda>k. sum_over fl tv (rows_of kc k)) (cells (group_keys kc))
    \<and> cells it = map (\<lambda>k. sum_over fl q (rows_of kc k)) (cells (group_keys kc))"
proof -
  have l: "length (cells tid) = length (cells kc)" "length (cells tv) = length (cells kc)"
    "length (cells q) = length (cells kc)"
    by (rule rectangular_columns [OF assms(2) assms(4) assms(3)],
        rule rectangular_columns [OF assms(2) assms(5) assms(3)],
        rule rectangular_columns [OF assms(2) assms(6) assms(3)])
  from analyze_Inr [OF assms(1)] show ?thesis
  proof (elim exE conjE)
    fix kc' tid' tv' q' sp av it
    assume g: "getitem t ''CustomerID'' = Inr kc'" "getitem t ''TransactionID'' = Inr tid'"
      "getitem t ''TotalValue'' = Inr tv'" "getitem t ''Quantity'' = Inr q'"
      and a: "agg_column fl (group_masks kc') tv' Sum = Inr sp"
        "agg_column fl (group_masks kc') tv' Mean = Inr av"
        "agg_column fl (group_masks kc') q' Sum = Inr it"
      and out: "out = [(''CustomerID'', group_keys kc'),
             (''total_transactions'',
                Int64s (map (\<lambda>m. count (select m (notna tid'))) (group_masks kc'))),
             (''total_spend'', sp),
             (''avg_transaction_value'', av),
             (''total_items'', it)]"
    from g assms(3-6) have e: "kc' = kc" "tid' = tid" "tv' = tv" "q' = q"
      by simp_all
    note sp = a(1) [unfolded e] and av = a(2) [unfolded e] and it = a(3) [unfolded e]
    have o: "out = [(''CustomerID'', group_keys kc),
             (''total_transactions'',
                Int64s (map (\<lambda>k. int (length (filter (\<lambda>j. \<not> isna (cells tid ! j)) (rows_of kc k))))
                         (cells (group_keys kc)))),
             (''total_spend'', sp),
             (''avg_transaction_value'', av),
             (''total_items'', it)]"
      unfolding out e by (simp only: count_cells [OF l(1)])
    show ?thesis
      apply (rule exI [of _ sp])
      apply (rule exI [of _ av])
      apply (rule exI [of _ it])
      apply (intro conjI)
          apply (rule o)
         apply (rule av)
        apply (rule sp)
       apply (rule agg_sum_rows [OF sp l(2)])
      apply (rule agg_sum_rows [OF it l(3)])
      done
  qed
qed


section \<open>The mean and the sum\<close>





section \<open>The call on the sample store\<close>

lemma table_at_third:
  "table_at (s @ [x, y, Table df]) (length s + 2) = df"
  by (simp add: table_at_def nth_append)

lemma store_run:
  "analyze_customer_behavior_on exact sample_store 0 2 = Inr (5, sample_store_after)"
proof -
  have l: "0 < length sample_store" "2 < length sample_store"
    by (simp_all add: sample_store_def)
  have t: "table_at sample_store 0 = sample_customers"
    "table_at sample_store 2 = mixed_transactions"
    by (simp_all add: sample_store_def table_at_def)
  show ?thesis
    unfolding analyze_on_eq [OF l] t
    by (simp add: sample_customers_def mixed_transactions_def mixed_behavior_def
        sample_store_after_def sample_store_def steps)
qed


section \<open>The claims\<close>

text \<open>
  C1. Whenever the aggregator returns a table, its customer identifier column lists the
  distinct non-null customer identifiers of the transactions table, each once, and the
  number of its rows is the number of these identifiers. This holds for the empty
  transactions table as well.
\<close>

theorem one_row_per_customer:
  assumes "analyze_customer_behavior fl c t = Inr (out, c', t')"
    and "getitem t ''CustomerID'' = Inr kc"
  shows "\<exists>oc. getitem out ''CustomerID'' = Inr oc
            \<and> distinct (cells oc)
            \<and> set (cells oc) = {x \<in> set (cells kc). \<not> isna x}
            \<and> nrows out = card {x \<in> set (cells kc). \<not> isna x}"
proof -
  from analyze_Inr [OF assms(1)] assms(2) obtain rest
    where "out = (''CustomerID'', group_keys kc) # rest"
    by auto
  then show ?thesis
    by (simp add: getitem_def nrows_Cons cells_group_keys distinct_cells_group_keys
        length_group_keys)
qed

theorem one_row_per_customer_witness:
  "analyze_customer_behavior exact sample_customers mixed_transactions
     = Inr (mixed_behavior, sample_customers, mixed_transactions)
   \<and> getitem mixed_transactions ''CustomerID'' = Inr (Ids [Some 2, Some 1, Some 2])
   \<and> nrows mixed_behavior = 2
   \<and> card {x \<in> set (cells (Ids [Some 2, Some 1, Some (2::nat)])). \<not> isna x} = 2"
proof -
  have k: "getitem mixed_transactions ''CustomerID'' = Inr (Ids [Some 2, Some 1, Some 2])"
    by (simp add: getitem_def mixed_transactions_def)
  have n: "nrows mixed_behavior = 2"
    by (simp add: nrows_def mixed_behavior_def)
  from one_row_per_customer [OF mixed_run k] n mixed_run k show ?thesis
    by auto
qed










text \<open>
  C4. Take a transactions table without rows that has the four columns the aggregator
  reads, the two aggregated ones of a kind that reading a file gives, and a customers
  table that has its two columns and whose identifiers can be joined with the
  transactions' (one dtype, or exactly one of the two columns without rows), both
  without a repeated label. Then the aggregator returns, and the table it returns has
  the five headers and no row.
\<close>

theorem empty_table_headers:
  assumes "no_rows t"
    and "has_columns t [''CustomerID'', ''TransactionID'', ''TotalValue'', ''Quantity'']"
    and "plain t ''TotalValue''" and "plain t ''Quantity''"
    and "has_columns c [''CustomerID'', ''Region'']" and "joinable t c"
    and "distinct_labels t" and "distinct_labels c"
  shows "\<exists>out. analyze_customer_behavior fl c t = Inr (out, c, t)
           \<and> labels out = [''CustomerID'', ''total_transactions'', ''total_spend'',
                            ''avg_transaction_value'', ''total_items'']
           \<and> no_rows out"
proof -
  from assms(2) obtain kc tid tv q where
    kc: "map_of t ''CustomerID'' = Some kc" and tid: "map_of t ''TransactionID'' = Some tid"
    and tv: "map_of t ''TotalValue'' = Some tv" and q: "map_of t ''Quantity'' = Some q"
    by (auto simp: has_columns_four)
  from no_rows_column [OF assms(1) kc] have g: "group_masks kc = []" "cells (group_keys kc) = []"
    by (simp_all add: group_of_no_rows)
  from agg_column_no_group [OF plain_Some [OF assms(3) tv]] obtain sp
    where sp: "agg_column fl [] tv Sum = Inr sp" "cells sp = []" by blast
  from agg_column_no_group [OF plain_Some [OF assms(3) tv]] obtain av
    where av: "agg_column fl [] tv Mean = Inr av" "cells av = []" by blast
  from agg_column_no_group [OF plain_Some [OF assms(4) q]] obtain it
    where it: "agg_column fl [] q Sum = Inr it" "cells it = []" by blast
  from analyze_returns [OF assms(5,6) kc tid tv q, of fl sp av it] sp(1) av(1) it(1) g(1)
  have "analyze_customer_behavior fl c t =
       Inr ([(''CustomerID'', group_keys kc),
             (''total_transactions'', Int64s []),
             (''total_spend'', sp),
             (''avg_transaction_value'', av),
             (''total_items'', it)], c, t)"
    by simp
  with g(2) sp(2) av(2) it(2) show ?thesis
    by (simp add: labels_def no_rows_def)
qed

theorem empty_table_headers_witness:
  "no_rows empty_transactions
   \<and> joinable empty_transactions numbered_customers
   \<and> distinct_labels empty_transactions \<and> distinct_labels numbered_customers
   \<and> analyze_customer_behavior exact numbered_customers empty_transactions
       = Inr (empty_behavior, numbered_customers, empty_transactions)
   \<and> labels empty_behavior = [''CustomerID'', ''total_transactions'', ''total_spend'',
                               ''avg_transaction_value'', ''total_items'']
   \<and> no_rows empty_behavior"
proof -
  have n: "no_rows empty_transactions"
    by (simp add: no_rows_def empty_transactions_def)
  have h: "has_columns empty_transactions [''CustomerID'', ''TransactionID'', ''TotalValue'', ''Quantity'']"
    by (simp add: has_columns_def empty_transactions_def)
  have v: "plain empty_transactions ''TotalValue''" and q: "plain empty_transactions ''Quantity''"
    by (simp_all add: plain_def empty_transactions_def)
  have c: "has_columns numbered_customers [''CustomerID'', ''Region'']"
    by (simp add: has_columns_def numbered_customers_def)
  have j: "joinable empty_transactions numbered_customers"
    by (simp add: joinable_def incompatible_keys_def empty_transactions_def numbered_customers_def)
  have r: "analyze_customer_behavior exact numbered_customers empty_transactions
       = Inr (empty_behavior, numbered_customers, empty_transactions)"
    by (simp add: analyze_eq numbered_customers_def empty_transactions_def empty_behavior_def steps)
  have d: "distinct_labels empty_transactions" "distinct_labels numbered_customers"
    by (simp_all add: distinct_labels_def labels_def empty_transactions_def
        numbered_customers_def)
  from empty_table_headers [OF n h v q c j d, of exact] n j d r show ?thesis
    by auto
qed


text \<open>
  C5, as stated, fails. The transactions table below has the customer identifier, the
  total value and the quantity, and the customers table has its two columns; the
  aggregator fails all the same, for the missing \<open>TransactionID\<close>.
\<close>

theorem fails_iff_column_missing_counterexample:
  "has_columns no_id_transactions [''CustomerID'', ''TotalValue'', ''Quantity'']
   \<and> has_columns sample_customers [''CustomerID'', ''Region'']
   \<and> analyze_customer_behavior exact sample_customers no_id_transactions
       = Inl (KeyError [''TransactionID''])"
  by (simp add: analyze_eq sample_customers_def no_id_transactions_def has_columns_def steps)

text \<open>
  C5, amended. Let neither table have a repeated label, let the total value and the
  quantity, where present, be numeric, and let the customer identifiers of the two
  tables, where both have them, be joinable (one dtype, or exactly one of the two columns
  without rows). Then the aggregator fails if
  and only if the transactions table lacks one of \<open>CustomerID\<close>, \<open>TransactionID\<close>,
  \<open>TotalValue\<close>, \<open>Quantity\<close>, or the customers table lacks one of \<open>CustomerID\<close>,
  \<open>Region\<close>. The error is a KeyError. The run that called the aggregator ends with the
  error of the aggregator.
\<close>

theorem fails_iff_column_missing:
  assumes "numeric t ''TotalValue''" and "numeric t ''Quantity''" and "joinable t c"
    and "distinct_labels t" and "distinct_labels c"
  shows "((\<exists>e. analyze_customer_behavior fl c t = Inl e) \<longleftrightarrow>
            \<not> has_columns t [''CustomerID'', ''TransactionID'', ''TotalValue'', ''Quantity'']
          \<or> \<not> has_columns c [''CustomerID'', ''Region''])
       \<and> (\<forall>e. analyze_customer_behavior fl c t = Inl e \<longrightarrow> (\<exists>ls. e = KeyError ls))
       \<and> (\<forall>e c0 p0 t0 m c1 p1 t1 p.
             perform_eda fl c0 p0 t0 = Inr (m, c1, p1, t1)
           \<longrightarrow> generate_visualizations fl c1 p1 t1 = Inr (c, p, t)
           \<longrightarrow> analyze_customer_behavior fl c t = Inl e
           \<longrightarrow> main fl c0 p0 t0 = Inl e)"
proof (intro conjI allI impI)
  show "(\<exists>e. analyze_customer_behavior fl c t = Inl e) \<longleftrightarrow>
            \<not> has_columns t [''CustomerID'', ''TransactionID'', ''TotalValue'', ''Quantity'']
          \<or> \<not> has_columns c [''CustomerID'', ''Region'']"
  proof (cases "has_columns c [''CustomerID'', ''Region'']")
    case False
    with analyze_no_customers_columns [OF False, of fl t] show ?thesis by auto
  next
    case hc: True
    show ?thesis
    proof (cases "has_columns t [''CustomerID'', ''TransactionID'', ''TotalValue'', ''Quantity'']")
      case False
      with analyze_no_transactions_columns [OF hc assms(3) False, of fl] show ?thesis by auto
    next
      case True
      with analyze_returns_numeric [OF hc assms(3) True assms(1,2), of fl] hc show ?thesis by auto
    qed
  qed
next
  fix e assume e: "analyze_customer_behavior fl c t = Inl e"
  show "\<exists>ls. e = KeyError ls"
  proof (cases "has_columns c [''CustomerID'', ''Region'']")
    case False
    with analyze_no_customers_columns [OF False, of fl t] e show ?thesis by auto
  next
    case hc: True
    show ?thesis
    proof (cases "has_columns t [''CustomerID'', ''TransactionID'', ''TotalValue'', ''Quantity'']")
      case False
      with analyze_no_transactions_columns [OF hc assms(3) False, of fl] e show ?thesis by auto
    next
      case True
      with analyze_returns_numeric [OF hc assms(3) True assms(1,2), of fl] e show ?thesis by auto
    qed
  qed
next
  fix e c0 p0 t0 m c1 p1 t1 p
  assume "perform_eda fl c0 p0 t0 = Inr (m, c1, p1, t1)"
    and "generate_visualizations fl c1 p1 t1 = Inr (c, p, t)"
    and "analyze_customer_behavior fl c t = Inl e"
  then show "main fl c0 p0 t0 = Inl e"
    by (rule main_passes_error)
qed

theorem fails_iff_column_missing_witness:
  "numeric no_id_transactions_after ''TotalValue''
   \<and> numeric no_id_transactions_after ''Quantity''
   \<and> joinable no_id_transactions_after sample_customers
   \<and> distinct_labels no_id_transactions_after \<and> distinct_labels sample_customers
   \<and> \<not> has_columns no_id_transactions_after [''CustomerID'', ''TransactionID'', ''TotalValue'', ''Quantity'']
   \<and> analyze_customer_behavior exact sample_customers no_id_transactions_after
       = Inl (KeyError [''TransactionID''])
   \<and> main exact sample_customers sample_products no_id_transactions
       = Inl (KeyError [''TransactionID''])"
proof -
  have v: "numeric no_id_transactions_after ''TotalValue''"
    and q: "numeric no_id_transactions_after ''Quantity''"
    by (simp_all add: numeric_def no_id_transactions_after_def)
  have j: "joinable no_id_transactions_after sample_customers"
    by (simp add: joinable_def incompatible_keys_def no_id_transactions_after_def sample_customers_def)
  have h: "\<not> has_columns no_id_transactions_after [''CustomerID'', ''TransactionID'', ''TotalValue'', ''Quantity'']"
    by (simp add: has_columns_def no_id_transactions_after_def)
  from map_sum_snd_Inr_D [OF no_id_perform_eda] obtain m where
    pe: "perform_eda exact sample_customers sample_products no_id_transactions
           = Inr (m, sample_customers, sample_products,
            [(''CustomerID'', Ids [Some 1]),
             (''Quantity'', Int64s [1]),
             (''TotalValue'', Nums [Some 10]),
             (''TransactionDate'', Dates [Some (2024, 1, 5)]),
             (''Year'', Nums [Some 2024]),
             (''Month'', Nums [Some 1])])" ..
  note gv = no_id_generate_visualizations
  have d: "distinct_labels no_id_transactions_after" "distinct_labels sample_customers"
    by (simp_all add: distinct_labels_def labels_def no_id_transactions_after_def
        sample_customers_def)
  note w = fails_iff_column_missing [OF v q j d, of exact]
  from w [THEN conjunct2, THEN conjunct2] pe gv no_id_run
  have "main exact sample_customers sample_products no_id_transactions
       = Inl (KeyError [''TransactionID''])"
    by blast
  with v q j d h no_id_run show ?thesis
    by simp
qed


text \<open>
  C6, as stated, fails. Both customers tables below have the two columns. With the one
  whose customer identifiers are numbers, as in the transactions table, the aggregator
  returns a table; with the one whose customer identifiers are text the join raises
  ValueError.
\<close>

theorem customers_table_counterexample:
  "has_columns numbered_customers [''CustomerID'', ''Region'']
   \<and> has_columns text_customers [''CustomerID'', ''Region'']
   \<and> map_sum id fst (analyze_customer_behavior exact numbered_customers numbered_transactions)
       = Inr [(''CustomerID'', Int64s [1]),
              (''total_transactions'', Int64s [1]),
              (''total_spend'', Nums [Some 10]),
              (''avg_transaction_value'', Nums [Some 10]),
              (''total_items'', Int64s [1])]
   \<and> map_sum id fst (analyze_customer_behavior exact text_customers numbered_transactions)
       = Inl ValueError"
  by (simp add: analyze_eq numbered_customers_def text_customers_def
      numbered_transactions_def has_columns_def steps)

text \<open>
  C6, amended. Let no table have a repeated label. For any two customers tables that have
  the two columns and whose customer identifiers can be joined with those of the
  transactions table (one dtype, or exactly one of the two columns without rows), the
  aggregator gives the same result on the same
  transactions table, be it a table or an error. No condition relates the identifiers of
  the two tables: when the transactions table has its four columns, the two aggregated
  ones numeric, the aggregator returns.
\<close>

theorem customers_table_irrelevant:
  assumes "has_columns c1 [''CustomerID'', ''Region'']" and "joinable t c1"
    and "has_columns c2 [''CustomerID'', ''Region'']" and "joinable t c2"
    and "distinct_labels t" and "distinct_labels c1" and "distinct_labels c2"
  shows "map_sum id fst (analyze_customer_behavior fl c1 t)
           = map_sum id fst (analyze_customer_behavior fl c2 t)
       \<and> (has_columns t [''CustomerID'', ''TransactionID'', ''TotalValue'', ''Quantity'']
            \<and> numeric t ''TotalValue'' \<and> numeric t ''Quantity''
          \<longrightarrow> (\<exists>out. analyze_customer_behavior fl c1 t = Inr (out, c1, t)
                   \<and> analyze_customer_behavior fl c2 t = Inr (out, c2, t)))"
proof (intro conjI impI)
  show eq: "map_sum id fst (analyze_customer_behavior fl c1 t)
           = map_sum id fst (analyze_customer_behavior fl c2 t)"
    by (simp add: analyze_indep [OF assms(1,2)] analyze_indep [OF assms(3,4)])
  assume t: "has_columns t [''CustomerID'', ''TransactionID'', ''TotalValue'', ''Quantity'']
            \<and> numeric t ''TotalValue'' \<and> numeric t ''Quantity''"
  then have h: "has_columns t [''CustomerID'', ''TransactionID'', ''TotalValue'', ''Quantity'']"
    and v: "numeric t ''TotalValue''" and q: "numeric t ''Quantity''"
    by simp_all
  from analyze_returns_numeric [OF assms(1,2) h v q, of fl] obtain out1
    where o1: "analyze_customer_behavior fl c1 t = Inr (out1, c1, t)" ..
  from analyze_returns_numeric [OF assms(3,4) h v q, of fl] obtain out2
    where o2: "analyze_customer_behavior fl c2 t = Inr (out2, c2, t)" ..
  from eq o1 o2 have "out1 = out2" by simp
  with o1 o2 show "\<exists>out. analyze_customer_behavior fl c1 t = Inr (out, c1, t)
                   \<and> analyze_customer_behavior fl c2 t = Inr (out, c2, t)"
    by blast
qed

theorem customers_table_irrelevant_witness:
  "has_columns sample_customers [''CustomerID'', ''Region'']
   \<and> joinable mixed_transactions sample_customers
   \<and> has_columns other_customers [''CustomerID'', ''Region'']
   \<and> joinable mixed_transactions other_customers
   \<and> distinct_labels mixed_transactions
   \<and> distinct_labels sample_customers \<and> distinct_labels other_customers
   \<and> getitem mixed_transactions ''CustomerID'' = Inr (Ids [Some 2, Some 1, Some 2])
   \<and> getitem sample_customers ''CustomerID'' = Inr (Ids [Some 1])
   \<and> getitem other_customers ''CustomerID'' = Inr (Ids [Some 7, Some 8])
   \<and> analyze_customer_behavior exact sample_customers mixed_transactions
       = Inr (mixed_behavior, sample_customers, mixed_transactions)
   \<and> analyze_customer_behavior exact other_customers mixed_transactions
       = Inr (mixed_behavior, other_customers, mixed_transactions)"
proof -
  have h1: "has_columns sample_customers [''CustomerID'', ''Region'']"
    and h2: "has_columns other_customers [''CustomerID'', ''Region'']"
    by (simp_all add: has_columns_def sample_customers_def other_customers_def)
  have j1: "joinable mixed_transactions sample_customers"
    and j2: "joinable mixed_transactions other_customers"
    by (simp_all add: joinable_def incompatible_keys_def mixed_transactions_def
        sample_customers_def other_customers_def)
  have g: "getitem mixed_transactions ''CustomerID'' = Inr (Ids [Some 2, Some 1, Some 2])"
     "getitem sample_customers ''CustomerID'' = Inr (Ids [Some 1])"
     "getitem other_customers ''CustomerID'' = Inr (Ids [Some 7, Some 8])"
    by (simp_all add: getitem_def mixed_transactions_def sample_customers_def other_customers_def)
  have t: "has_columns mixed_transactions [''CustomerID'', ''TransactionID'', ''TotalValue'', ''Quantity'']
            \<and> numeric mixed_transactions ''TotalValue'' \<and> numeric mixed_transactions ''Quantity''"
    by (simp add: has_columns_def numeric_def mixed_transactions_def)
  have d: "distinct_labels mixed_transactions"
    "distinct_labels sample_customers" "distinct_labels other_customers"
    by (simp_all add: distinct_labels_def labels_def mixed_transactions_def
        sample_customers_def other_customers_def)
  note w = customers_table_irrelevant [OF h1 j1 h2 j2 d, of exact]
  from w [THEN conjunct2] t obtain out where
    "analyze_customer_behavior exact sample_customers mixed_transactions
       = Inr (out, sample_customers, mixed_transactions)"
    "analyze_customer_behavior exact other_customers mixed_transactions
       = Inr (out, other_customers, mixed_transactions)"
    by blast
  with mixed_run have "analyze_customer_behavior exact other_customers mixed_transactions
       = Inr (mixed_behavior, other_customers, mixed_transactions)"
    by simp
  with h1 h2 j1 j2 d g mixed_run show ?thesis
    by simp
qed


text \<open>
  C7. In every table that the aggregator returns, the customer identifier column has no
  null and its identifiers strictly increase from each row to the next.
\<close>

theorem rows_ascending:
  assumes "analyze_customer_behavior fl c t = Inr (out, c', t')"
  shows "\<exists>oc. getitem out ''CustomerID'' = Inr oc \<and> ascending oc"
proof -
  from analyze_Inr [OF assms] obtain kc rest where "out = (''CustomerID'', group_keys kc) # rest"
    by blast
  then show ?thesis
    by (simp add: getitem_def ascending_group_keys)
qed

theorem rows_ascending_witness:
  "analyze_customer_behavior exact sample_customers mixed_transactions
     = Inr (mixed_behavior, sample_customers, mixed_transactions)
   \<and> getitem mixed_transactions ''CustomerID'' = Inr (Ids [Some 2, Some 1, Some 2])
   \<and> getitem mixed_behavior ''CustomerID'' = Inr (Ids [Some 1, Some 2])
   \<and> ascending (Ids [Some 1, Some (2::nat)])"
proof -
  have k: "getitem mixed_transactions ''CustomerID'' = Inr (Ids [Some 2, Some 1, Some 2])"
    by (simp add: getitem_def mixed_transactions_def)
  have o: "getitem mixed_behavior ''CustomerID'' = Inr (Ids [Some 1, Some 2])"
    by (simp add: getitem_def mixed_behavior_def)
  from rows_ascending [OF mixed_run] mixed_run k o show ?thesis
    by auto
qed


text \<open>
  C8. On a store of mutable objects, let the aggregator be called on references to two
  objects of the store, and let the call return. The call leaves every object that the
  store held before as it was, the two tables of the call among them, and the table it
  returns is a new object. A second call on the same references, made on the store that
  the first call left, returns as well, leaves that store as it was, and its table, again
  a new object, is equal to the table of the first call.
\<close>

theorem second_run_same:
  assumes "customers_df < length s" and "transactions_df < length s"
    and "analyze_customer_behavior_on fl s customers_df transactions_df = Inr (r, s')"
  shows "take (length s) s' = s \<and> length s \<le> r \<and> r < length s'
       \<and> (\<exists>r2 s2.
            analyze_customer_behavior_on fl s' customers_df transactions_df = Inr (r2, s2)
          \<and> take (length s') s2 = s' \<and> length s' \<le> r2 \<and> r2 < length s2
          \<and> table_at s2 r2 = table_at s' r)"
proof -
  let ?names = "[''CustomerID'', ''total_transactions'', ''total_spend'',
                 ''avg_transaction_value'', ''total_items'']"
  let ?spec = "[(''TransactionID'', [Count]), (''TotalValue'', [Sum, Mean]),
                (''Quantity'', [Sum])]"
  from assms(3) [unfolded analyze_on_eq [OF assms(1,2)] andthen_eq_Inr]
  obtain sub joined g a df where
    sub: "getitems (table_at s customers_df) [''CustomerID'', ''Region''] = Inr sub"
    and joined: "merge (table_at s transactions_df) sub ''CustomerID'' = Inr joined"
    and g: "groupby (table_at s transactions_df) ''CustomerID'' = Inr g"
    and a: "agg fl g ?spec = Inr a"
    and df: "set_columns (reset_index a) ?names = Inr df"
    and res: "Inr (length s + 2, s @ [Table sub, Table joined, Table df])
                = (Inr (r, s') :: error + nat \<times> 'a object list)"
    by (elim exE conjE)
  from res have r: "r = length s + 2" and s': "s' = s @ [Table sub, Table joined, Table df]"
    by simp_all
  have l: "customers_df < length s'" "transactions_df < length s'"
    using assms(1,2) by (simp_all add: s')
  have t: "table_at s' customers_df = table_at s customers_df"
    "table_at s' transactions_df = table_at s transactions_df"
    using assms(1,2) by (simp_all add: s')
  have second: "analyze_customer_behavior_on fl s' customers_df transactions_df
      = Inr (length s' + 2, s' @ [Table sub, Table joined, Table df])"
    unfolding analyze_on_eq [OF l] t sub joined g a df andthen_Inr ..
  have same: "table_at (s' @ [Table sub, Table joined, Table df]) (length s' + 2) = table_at s' r"
    unfolding table_at_third unfolding r s' by (rule table_at_third [symmetric])
  have "take (length s) s' = s" "length s \<le> r" "r < length s'"
    by (simp_all add: r s')
  moreover have "\<exists>r2 s2.
            analyze_customer_behavior_on fl s' customers_df transactions_df = Inr (r2, s2)
          \<and> take (length s') s2 = s' \<and> length s' \<le> r2 \<and> r2 < length s2
          \<and> table_at s2 r2 = table_at s' r"
    apply (rule exI [of _ "length s' + 2"])
    apply (rule exI [of _ "s' @ [Table sub, Table joined, Table df]"])
    apply (intro conjI)
        apply (rule second)
       apply simp
      apply simp
     apply simp
    apply (rule same)
    done
  ultimately show ?thesis
    by (intro conjI)
qed

theorem second_run_same_witness:
  "0 < length sample_store \<and> 2 < length sample_store
   \<and> analyze_customer_behavior_on exact sample_store 0 2 = Inr (5, sample_store_after)
   \<and> table_at sample_store 2 = mixed_transactions
   \<and> table_at sample_store_after 2 = mixed_transactions
   \<and> table_at sample_store_after 5 = mixed_behavior
   \<and> take (length sample_store) sample_store_after = sample_store
   \<and> (\<exists>r2 s2. analyze_customer_behavior_on exact sample_store_after 0 2 = Inr (r2, s2)
         \<and> take (length sample_store_after) s2 = sample_store_after
         \<and> length sample_store_after \<le> r2 \<and> r2 < length s2
         \<and> table_at s2 r2 = mixed_behavior)"
proof -
  have l: "0 < length sample_store" "2 < length sample_store"
    by (simp_all add: sample_store_def)
  have t: "table_at sample_store 2 = mixed_transactions"
    "table_at sample_store_after 2 = mixed_transactions"
    "table_at sample_store_after 5 = mixed_behavior"
    by (simp_all add: sample_store_after_def sample_store_def table_at_def)
  note w = second_run_same [OF l store_run]
  from w have k: "take (length sample_store) sample_store_after = sample_store"
    by (rule conjunct1)
  from w have "\<exists>r2 s2. analyze_customer_behavior_on exact sample_store_after 0 2 = Inr (r2, s2)
         \<and> take (length sample_store_after) s2 = sample_store_after
         \<and> length sample_store_after \<le> r2 \<and> r2 < length s2
         \<and> table_at s2 r2 = table_at sample_store_after 5"
    by (elim conjE)
  then have "\<exists>r2 s2. analyze_customer_behavior_on exact sample_store_after 0 2 = Inr (r2, s2)
         \<and> take (length sample_store_after) s2 = sample_store_after
         \<and> length sample_store_after \<le> r2 \<and> r2 < length s2
         \<and> table_at s2 r2 = mixed_behavior"
    unfolding t .
  with l store_run t k show ?thesis
    by (intro conjI)
qed


text \<open>
  C9, as stated, fails. The run below adds three columns to the transactions table:
  \<open>Year\<close> and \<open>Month\<close> in the summary, and \<open>YearMonth\<close> in the charts.
\<close>

theorem columns_added_counterexample:
  "labels sample_transactions
     = [''TransactionID'', ''CustomerID'', ''ProductID'', ''Quantity'', ''TotalValue'',
        ''TransactionDate'']
   \<and> map_sum id (labels \<circ> snd \<circ> snd \<circ> snd)
        (main exact sample_customers sample_products sample_transactions)
     = Inr [''TransactionID'', ''CustomerID'', ''ProductID'', ''Quantity'', ''TotalValue'',
            ''TransactionDate'', ''Year'', ''Month'', ''YearMonth'']"
proof -
  from map_sum_snd_Inr_D [OF sample_main] obtain r where
    "main exact sample_customers sample_products sample_transactions
       = Inr (r, sample_customers, sample_products, sample_transactions_after)" ..
  then show ?thesis
    by (simp add: labels_def sample_transactions_def sample_transactions_after_def)
qed

text \<open>
  C9, amended. A run that returns leaves the customers and the products tables as they
  were loaded. In the transactions table it sets three columns computed from the
  transaction dates, \<open>Year\<close>, \<open>Month\<close> and \<open>YearMonth\<close>, and leaves every other column as
  it was; when the loaded table has none of the three labels, they are appended in this
  order after the loaded columns.
\<close>

theorem only_calendar_columns_written:
  assumes "main fl c p t = Inr (r, c', p', t')"
  shows "c' = c \<and> p' = p
       \<and> (\<forall>l. l \<notin> {''Year'', ''Month'', ''YearMonth''} \<longrightarrow> map_of t' l = map_of t l)
       \<and> (\<exists>ds. map_of t ''TransactionDate'' = Some (Dates ds)
              \<and> map_of t' ''Year'' = Some (Nums (map (map_option (\<lambda>(y, m, d). real_of_int y)) ds))
              \<and> map_of t' ''Month'' = Some (Nums (map (map_option (\<lambda>(y, m, d). real m)) ds))
              \<and> map_of t' ''YearMonth'' = Some (Periods (map (map_option (\<lambda>(y, m, d). (y, m))) ds)))
       \<and> ({''Year'', ''Month'', ''YearMonth''} \<inter> set (labels t) = {}
            \<longrightarrow> labels t' = labels t @ [''Year'', ''Month'', ''YearMonth''])"
proof -
  from main_Inr [OF assms] obtain ds where cp: "c' = c" "p' = p"
    and d: "getitem t ''TransactionDate'' = Inr (Dates ds)"
    and t': "t' = setitem (setitem (setitem t
                        ''Year'' (Nums (map (map_option (\<lambda>(y, m, d). real_of_int y)) ds)))
                        ''Month'' (Nums (map (map_option (\<lambda>(y, m, d). real m)) ds)))
                        ''YearMonth'' (Periods (map (map_option (\<lambda>(y, m, d). (y, m))) ds))"
    by auto
  have others: "\<forall>l. l \<notin> {''Year'', ''Month'', ''YearMonth''} \<longrightarrow> map_of t' l = map_of t l"
    by (simp add: t' map_of_setitem)
  from d have date: "map_of t ''TransactionDate'' = Some (Dates ds)"
    by (simp add: getitem_eq_Inr)
  have written: "map_of t' ''Year'' = Some (Nums (map (map_option (\<lambda>(y, m, d). real_of_int y)) ds))"
    "map_of t' ''Month'' = Some (Nums (map (map_option (\<lambda>(y, m, d). real m)) ds))"
    "map_of t' ''YearMonth'' = Some (Periods (map (map_option (\<lambda>(y, m, d). (y, m))) ds))"
    by (simp_all add: t' map_of_setitem)
  have appended: "{''Year'', ''Month'', ''YearMonth''} \<inter> set (labels t) = {}
            \<longrightarrow> labels t' = labels t @ [''Year'', ''Month'', ''YearMonth'']"
    by (simp add: t' labels_setitem)
  from date written have "\<exists>ds. map_of t ''TransactionDate'' = Some (Dates ds)
              \<and> map_of t' ''Year'' = Some (Nums (map (map_option (\<lambda>(y, m, d). real_of_int y)) ds))
              \<and> map_of t' ''Month'' = Some (Nums (map (map_option (\<lambda>(y, m, d). real m)) ds))
              \<and> map_of t' ''YearMonth'' = Some (Periods (map (map_option (\<lambda>(y, m, d). (y, m))) ds))"
    by (intro exI [of _ ds] conjI)
  with cp others appended show ?thesis
    by (intro conjI)
qed

theorem only_calendar_columns_written_witness:
  "map_sum id snd (main exact sample_customers sample_products sample_transactions)
     = Inr (sample_customers, sample_products, sample_transactions_after)
   \<and> {''Year'', ''Month'', ''YearMonth''} \<inter> set (labels sample_transactions) = {}
   \<and> labels sample_transactions_after
       = labels sample_transactions @ [''Year'', ''Month'', ''YearMonth'']
   \<and> map_of sample_transactions_after ''TotalValue'' = map_of sample_transactions ''TotalValue''"
proof -
  from map_sum_snd_Inr_D [OF sample_main] obtain r where
    m: "main exact sample_customers sample_products sample_transactions
       = Inr (r, sample_customers, sample_products, sample_transactions_after)" ..
  note w = only_calendar_columns_written [OF m]
  have n: "{''Year'', ''Month'', ''YearMonth''} \<inter> set (labels sample_transactions) = {}"
    by (simp add: labels_def sample_transactions_def)
  have v: "''TotalValue'' \<notin> {''Year'', ''Month'', ''YearMonth''}"
    by simp
  from w [THEN conjunct2, THEN conjunct2, THEN conjunct1] v
  have a: "map_of sample_transactions_after ''TotalValue'' = map_of sample_transactions ''TotalValue''"
    by (elim allE [of _ "''TotalValue''"] impE)
  from w [THEN conjunct2, THEN conjunct2, THEN conjunct2, THEN conjunct2] n
  have b: "labels sample_transactions_after
       = labels sample_transactions @ [''Year'', ''Month'', ''YearMonth'']"
    by (elim impE)
  from sample_main n b a show ?thesis
    by (intro conjI)
qed


text \<open>
  C10. Let the transactions table be rectangular and the aggregator return a table. In the
  row of each customer, \<open>total_transactions\<close> is the number of the rows of that customer
  whose \<open>TransactionID\<close> is not null, while \<open>total_spend\<close> and \<open>total_items\<close> are sums
  over all rows of that customer, those with a null \<open>TransactionID\<close> included.
\<close>

theorem count_of_transaction_ids:
  assumes "analyze_customer_behavior fl c t = Inr (out, c', t')"
    and "rectangular t"
    and "getitem t ''CustomerID'' = Inr kc"
    and "getitem t ''TransactionID'' = Inr tid"
    and "getitem t ''TotalValue'' = Inr tv"
    and "getitem t ''Quantity'' = Inr q"
  shows "\<exists>oc sp it.
      getitem out ''CustomerID'' = Inr oc
    \<and> getitem out ''total_transactions''
        = Inr (Int64s (map (\<lambda>k. int (length (filter (\<lambda>j. \<not> isna (cells tid ! j)) (rows_of kc k))))
                        (cells oc)))
    \<and> getitem out ''total_spend'' = Inr sp
    \<and> cells sp = map (\<lambda>k. sum_over fl tv (rows_of kc k)) (cells oc)
    \<and> getitem out ''total_items'' = Inr it
    \<and> cells it = map (\<lambda>k. sum_over fl q (rows_of kc k)) (cells oc)"
proof -
  from analyze_columns [OF assms] obtain sp av it where
    out: "out = [(''CustomerID'', group_keys kc),
             (''total_transactions'',
                Int64s (map (\<lambda>k. int (length (filter (\<lambda>j. \<not> isna (cells tid ! j)) (rows_of kc k))))
                         (cells (group_keys kc)))),
             (''total_spend'', sp),
             (''avg_transaction_value'', av),
             (''total_items'', it)]"
    and sp: "cells sp = map (\<lambda>k. sum_over fl tv (rows_of kc k)) (cells (group_keys kc))"
    and it: "cells it = map (\<lambda>k. sum_over fl q (rows_of kc k)) (cells (group_keys kc))"
    by blast
  have g: "getitem out ''CustomerID'' = Inr (group_keys kc)"
    "getitem out ''total_transactions''
        = Inr (Int64s (map (\<lambda>k. int (length (filter (\<lambda>j. \<not> isna (cells tid ! j)) (rows_of kc k))))
                        (cells (group_keys kc))))"
    "getitem out ''total_spend'' = Inr sp" "getitem out ''total_items'' = Inr it"
    by (simp_all add: out getitem_def)
  show ?thesis
    apply (rule exI [of _ "group_keys kc"])
    apply (rule exI [of _ sp])
    apply (rule exI [of _ it])
    apply (intro conjI)
         apply (rule g(1))
        apply (rule g(2))
       apply (rule g(3))
      apply (rule sp)
     apply (rule g(4))
    apply (rule it)
    done
qed

theorem count_of_transaction_ids_witness:
  "analyze_customer_behavior exact sample_customers mixed_transactions
     = Inr (mixed_behavior, sample_customers, mixed_transactions)
   \<and> rectangular mixed_transactions
   \<and> getitem mixed_transactions ''CustomerID'' = Inr (Ids [Some 2, Some 1, Some 2])
   \<and> getitem mixed_transactions ''TransactionID'' = Inr (Strs [Some ''T1'', Some ''T2'', None])
   \<and> getitem mixed_transactions ''TotalValue'' = Inr (Nums [Some 20, Some 5, Some 30])
   \<and> getitem mixed_transactions ''Quantity'' = Inr (Int64s [2, 1, 3])
   \<and> getitem mixed_behavior ''CustomerID'' = Inr (Ids [Some 1, Some 2])
   \<and> getitem mixed_behavior ''total_transactions'' = Inr (Int64s [1, 1])
   \<and> getitem mixed_behavior ''total_spend'' = Inr (Nums [Some 5, Some 50])
   \<and> getitem mixed_behavior ''total_items'' = Inr (Int64s [1, 5])
   \<and> rows_of (Ids [Some 2, Some 1, Some (2::nat)]) (Id (Some 2)) = [0, 2]
   \<and> filter (\<lambda>j. \<not> isna (cells (Strs [Some ''T1'', Some ''T2'', None] :: nat column) ! j)) [0, 2]
       = [0]
   \<and> sum_over exact (Nums [Some 20, Some 5, Some 30] :: nat column) [0, 2] = Num (Some 50)
   \<and> sum_over exact (Int64s [2, 1, 3] :: nat column) [0, 2] = Num (Some 5)
   \<and> (Int64s [1, 1] :: nat column)
       = Int64s (map (\<lambda>k. int (length (filter
                   (\<lambda>j. \<not> isna (cells (Strs [Some ''T1'', Some ''T2'', None] :: nat column) ! j))
                   (rows_of (Ids [Some 2, Some 1, Some 2]) k))))
           (cells (Ids [Some 1, Some (2::nat)])))"
proof -
  have r: "rectangular mixed_transactions"
    by (simp add: rectangular_def nrows_def mixed_transactions_def)
  have k: "getitem mixed_transactions ''CustomerID'' = Inr (Ids [Some 2, Some 1, Some 2])"
    and i: "getitem mixed_transactions ''TransactionID'' = Inr (Strs [Some ''T1'', Some ''T2'', None])"
    and v: "getitem mixed_transactions ''TotalValue'' = Inr (Nums [Some 20, Some 5, Some 30])"
    and q: "getitem mixed_transactions ''Quantity'' = Inr (Int64s [2, 1, 3])"
    by (simp_all add: getitem_def mixed_transactions_def)
  have o: "getitem mixed_behavior ''CustomerID'' = Inr (Ids [Some 1, Some 2])"
    "getitem mixed_behavior ''total_transactions'' = Inr (Int64s [1, 1])"
    "getitem mixed_behavior ''total_spend'' = Inr (Nums [Some 5, Some 50])"
    "getitem mixed_behavior ''total_items'' = Inr (Int64s [1, 5])"
    by (simp_all add: getitem_def mixed_behavior_def)
  have p: "rows_of (Ids [Some 2, Some 1, Some (2::nat)]) (Id (Some 2)) = [0, 2]"
    by (simp add: rows_of_def)
  have f: "filter (\<lambda>j. \<not> isna (cells (Strs [Some ''T1'', Some ''T2'', None] :: nat column) ! j)) [0, 2]
       = [0]"
    by simp
  have s: "sum_over exact (Nums [Some 20, Some 5, Some 30] :: nat column) [0, 2] = Num (Some 50)"
    "sum_over exact (Int64s [2, 1, 3] :: nat column) [0, 2] = Num (Some 5)"
    by (simp_all add: exact_def Let_def)
  from count_of_transaction_ids [OF mixed_run r k i v q]
  have n: "(Int64s [1, 1] :: nat column)
       = Int64s (map (\<lambda>k. int (length (filter
                   (\<lambda>j. \<not> isna (cells (Strs [Some ''T1'', Some ''T2'', None] :: nat column) ! j))
                   (rows_of (Ids [Some 2, Some 1, Some 2]) k))))
           (cells (Ids [Some 1, Some (2::nat)])))"
    unfolding o by (elim exE conjE) simp
  from mixed_run r k i v q o p f s n show ?thesis
    by (intro conjI)
qed


end
